theory Spec2Isabelle
  imports Complex_Main
begin

section \<open>Data model\<close>

text \<open>
  The analytics functions of \<^verbatim>\<open>customer_analysis.py\<close> and \<^verbatim>\<open>laundry_analysis.py\<close>
  are embedded as HOL functions over lists of rows: a pandas data frame is the list of
  its rows in index order, a row is a record whose fields are the frame's columns, and a
  cell that pandas can leave missing (NaN) is an \<open>option\<close>. Floating-point columns are
  read as real numbers. A raised exception is the \<open>Inl\<close> branch of a sum.

  An order row of the source table carries all of its nine fields: the customer
  identifier, the facility identifier, the start date, the item, the service, the two
  consumptions and the two flags.

  \<open>StartDate\<close> is parsed by \<^verbatim>\<open>read_csv(parse_dates=...)\<close>; an order start date is a
  calendar day, counted here in days since 1970-01-01. A wall-clock instant
  (\<^verbatim>\<open>datetime.now()\<close>) is counted in microseconds since the same epoch.
\<close>

type_synonym date = int
type_synonym datetime = int

datatype error = ValueError | IndexError

record OrderRecord =
  TenantID :: string
  LaundryID :: string
  StartDate :: date
  Item :: string
  Service :: string
  Water_Litres :: real
  Electricity_kWh :: real
  IsHoliday :: int
  IsWeekend :: int

text \<open>The model inputs \<^verbatim>\<open>X\<close> of the customer forecaster, and the daily frame
  \<^verbatim>\<open>daily_orders\<close> that carries them next to \<^verbatim>\<open>ds\<close> and \<^verbatim>\<open>orders\<close>.\<close>

record 'c Features =
  day_of_week :: int
  is_weekend :: int
  month :: int
  day_of_month :: int
  time_idx :: int
  orders_7d_avg :: 'c
  orders_28d_avg :: 'c
  lag_1 :: 'c
  lag_7 :: 'c
  lag_14 :: 'c
  lag_28 :: 'c
  is_holiday :: int

record 'c DailyRow = "'c Features" +
  ds :: date
  orders :: 'c

text \<open>A two-column frame \<^verbatim>\<open>ds, y\<close>: the customer's \<^verbatim>\<open>historical\<close> frame and the
  facility's \<^verbatim>\<open>daily_demand\<close>.\<close>

record 'v Series =
  ds :: date
  y :: 'v

text \<open>The customer's \<^verbatim>\<open>forecast_df\<close> after \<^verbatim>\<open>pd.concat\<close>: history rows have no
  prediction, forecast rows have no \<^verbatim>\<open>y\<close>.\<close>

record ForecastRow = "real option Series" +
  yhat :: "real option"
  yhat_lower :: "real option"
  yhat_upper :: "real option"

record FutureResourceRow = ForecastRow +
  Water_Needed :: "real option"
  Electricity_Needed :: "real option"

text \<open>The facility forecaster's frames: \<^verbatim>\<open>data\<close> and \<^verbatim>\<open>future_df\<close>.\<close>

record CalendarRow = "int Series" +
  DayOfYear :: int
  DayOfWeek :: int
  WeekOfYear :: int

record FutureRow =
  ds :: date
  DayOfYear :: int
  DayOfWeek :: int
  WeekOfYear :: int
  yhat :: real
  yhat_lower :: real
  yhat_upper :: real

record ResourceDayRow =
  StartDate :: date
  OrderCount :: int
  WaterConsumption :: real
  ElectricityConsumption :: real
  ExpectedWater :: real
  ExpectedElectricity :: real
  WaterError :: real
  ElectricError :: real
  Anomaly :: int
  AnomalyLabel :: "string option"

record AlertRow = ResourceDayRow +
  Alert :: string

section \<open>Calendar accessors\<close>

definition day_us :: int where
  "day_us = 86400000000"

definition timestamp :: "date \<Rightarrow> datetime" where
  "timestamp d = d * day_us"

text \<open>\<^verbatim>\<open>dt.weekday\<close>: Monday is 0; day 0 (1970-01-01) is a Thursday.\<close>

definition weekday :: "date \<Rightarrow> int" where
  "weekday d = (d + 3) mod 7"

text \<open>Year, month and day of the proleptic Gregorian calendar.\<close>

definition civil_from_days :: "date \<Rightarrow> int \<times> int \<times> int" where
  "civil_from_days d =
    (let z = d + 719468;
         era = z div 146097;
         doe = z - era * 146097;
         yoe = (doe - doe div 1460 + doe div 36524 - doe div 146096) div 365;
         doy = doe - (365 * yoe + yoe div 4 - yoe div 100);
         mp = (5 * doy + 2) div 153;
         dd = doy - (153 * mp + 2) div 5 + 1;
         mm = (if mp < 10 then mp + 3 else mp - 9);
         yy = yoe + era * 400 + (if mm \<le> 2 then 1 else 0)
     in (yy, mm, dd))"

definition days_from_civil :: "int \<Rightarrow> int \<Rightarrow> int \<Rightarrow> date" where
  "days_from_civil yy mm dd =
    (let y' = yy - (if mm \<le> 2 then 1 else 0);
         era = y' div 400;
         yoe = y' - era * 400;
         doy = (153 * (mm + (if mm > 2 then - 3 else 9)) + 2) div 5 + dd - 1;
         doe = yoe * 365 + yoe div 4 - yoe div 100 + doy
     in era * 146097 + doe - 719468)"

definition dt_year :: "date \<Rightarrow> int" where
  "dt_year d = fst (civil_from_days d)"

definition dt_month :: "date \<Rightarrow> int" where
  "dt_month d = fst (snd (civil_from_days d))"

definition dt_day :: "date \<Rightarrow> int" where
  "dt_day d = snd (snd (civil_from_days d))"

definition dayofyear :: "date \<Rightarrow> int" where
  "dayofyear d = d - days_from_civil (dt_year d) 1 1 + 1"

definition weeks_in_year :: "int \<Rightarrow> int" where
  "weeks_in_year yy =
    (let p = (\<lambda>v. (v + v div 4 - v div 100 + v div 400) mod 7)
     in if p yy = 4 \<or> p (yy - 1) = 3 then 53 else 52)"

text \<open>\<^verbatim>\<open>dt.isocalendar().week\<close>.\<close>

definition isoweek :: "date \<Rightarrow> int" where
  "isoweek d =
    (let w = (dayofyear d - (weekday d + 1) + 10) div 7
     in if w < 1 then weeks_in_year (dt_year d - 1)
        else if w > weeks_in_year (dt_year d) then 1
        else w)"

section \<open>Frame operations\<close>

text \<open>\<^verbatim>\<open>Series.min()\<close> and \<^verbatim>\<open>Series.max()\<close> of a date column: \<open>None\<close> is NaT, the
  value on an empty column.\<close>

fun col_min :: "int list \<Rightarrow> int option" where
  "col_min [] = None"
| "col_min (x # xs) = Some (fold min xs x)"

fun col_max :: "int list \<Rightarrow> int option" where
  "col_max [] = None"
| "col_max (x # xs) = Some (fold max xs x)"

text \<open>\<^verbatim>\<open>pd.date_range(start, end, freq='D')\<close> and
  \<^verbatim>\<open>pd.date_range(start, periods=n)\<close>.\<close>

definition date_range :: "date \<Rightarrow> date \<Rightarrow> date list" where
  "date_range start end' = [start..end']"

definition date_range_periods :: "date \<Rightarrow> nat \<Rightarrow> date list" where
  "date_range_periods start periods = map (\<lambda>i. start + int i) [0..<periods]"

text \<open>\<^verbatim>\<open>groupby(key)\<close> makes one group per distinct key, in ascending key order.\<close>

definition groupby_keys :: "date list \<Rightarrow> date list" where
  "groupby_keys ks = sort (remdups ks)"

definition group :: "OrderRecord list \<Rightarrow> date \<Rightarrow> OrderRecord list" where
  "group data k = filter (\<lambda>r. OrderRecord.StartDate r = k) data"

text \<open>\<^verbatim>\<open>groupby(...).size()\<close> counts the rows of a group; the aggregation
  \<^verbatim>\<open>"count"\<close> counts the cells of a column that are not missing. The cells of a
  column of the order table are all present.\<close>

definition groupby_size :: "OrderRecord list \<Rightarrow> (date \<times> int) list" where
  "groupby_size data =
    map (\<lambda>k. (k, int (length (group data k))))
      (groupby_keys (map OrderRecord.StartDate data))"

definition count :: "'a option list \<Rightarrow> int" where
  "count cells = int (length (filter (\<lambda>c. c \<noteq> None) cells))"

text \<open>\<^verbatim>\<open>full_df.merge(daily_orders, on="ds", how="left")\<close>: a date without a group
  gets a missing \<^verbatim>\<open>orders\<close> cell.\<close>

definition merge_left :: "date list \<Rightarrow> (date \<times> int) list \<Rightarrow> (date \<times> real option) list" where
  "merge_left full_dates daily = map (\<lambda>d. (d, map_option real_of_int (map_of daily d))) full_dates"

definition fillna :: "real \<Rightarrow> real option \<Rightarrow> real option" where
  "fillna v c = (case c of None \<Rightarrow> Some v | Some x \<Rightarrow> Some x)"

text \<open>\<^verbatim>\<open>rolling(window, min_periods).mean()\<close>: at row \<open>i\<close> the mean of the observed
  cells among the last \<open>window\<close> rows, missing when fewer than \<open>min_periods\<close> are
  observed.\<close>

definition observed :: "real option list \<Rightarrow> real list" where
  "observed cells = concat (map (\<lambda>c. case c of None \<Rightarrow> [] | Some x \<Rightarrow> [x]) cells)"

definition rolling_mean :: "nat \<Rightarrow> nat \<Rightarrow> real option list \<Rightarrow> real option list" where
  "rolling_mean window min_periods cells =
    map (\<lambda>i. let obs = observed (drop (Suc i - window) (take (Suc i) cells))
             in if length obs < min_periods \<or> obs = [] then None
                else Some (sum_list obs / real (length obs)))
      [0..<length cells]"

text \<open>\<^verbatim>\<open>shift(k)\<close>: row \<open>i\<close> takes the cell of row \<open>i - k\<close>; the first \<open>k\<close> rows
  are missing.\<close>

definition shift :: "nat \<Rightarrow> real option list \<Rightarrow> real option list" where
  "shift k cells = replicate (min k (length cells)) None @ take (length cells - k) cells"

text \<open>\<^verbatim>\<open>dropna()\<close> keeps the rows without a missing cell.\<close>

definition complete :: "real option DailyRow \<Rightarrow> bool" where
  "complete r \<longleftrightarrow>
     orders_7d_avg r \<noteq> None \<and> orders_28d_avg r \<noteq> None \<and> lag_1 r \<noteq> None \<and>
     lag_7 r \<noteq> None \<and> lag_14 r \<noteq> None \<and> lag_28 r \<noteq> None \<and> orders r \<noteq> None"

definition cells_of :: "real option DailyRow \<Rightarrow> real DailyRow" where
  "cells_of r =
    \<lparr>day_of_week = day_of_week r, is_weekend = is_weekend r, month = month r,
     day_of_month = day_of_month r, time_idx = time_idx r,
     orders_7d_avg = the (orders_7d_avg r), orders_28d_avg = the (orders_28d_avg r),
     lag_1 = the (lag_1 r), lag_7 = the (lag_7 r), lag_14 = the (lag_14 r),
     lag_28 = the (lag_28 r), is_holiday = is_holiday r,
     DailyRow.ds = DailyRow.ds r, orders = the (orders r)\<rparr>"

definition dropna :: "real option DailyRow list \<Rightarrow> real DailyRow list" where
  "dropna rows = map cells_of (filter complete rows)"

text \<open>\<^verbatim>\<open>xs.iloc[-k]\<close> raises IndexError when the column has fewer than \<open>k\<close> rows.\<close>

definition iloc_neg :: "'a list \<Rightarrow> nat \<Rightarrow> error + 'a" where
  "iloc_neg xs k =
    (if 1 \<le> k \<and> k \<le> length xs then Inr (xs ! (length xs - k)) else Inl IndexError)"

text \<open>\<^verbatim>\<open>mean()\<close> and \<^verbatim>\<open>sum()\<close> of a column skip missing cells; the mean of no
  observation is missing.\<close>

definition col_mean :: "real option list \<Rightarrow> real option" where
  "col_mean cells =
    (let obs = observed cells
     in if obs = [] then None else Some (sum_list obs / real (length obs)))"

definition col_sum :: "real option list \<Rightarrow> real" where
  "col_sum cells = sum_list (observed cells)"

text \<open>Python's \<^verbatim>\<open>round(x)\<close>: to the nearest integer, a tie to the even one.\<close>

definition py_round :: "real \<Rightarrow> int" where
  "py_round x =
    (let f = \<lfloor>x\<rfloor>; d = x - of_int f
     in if d < 1 / 2 then f else if 1 / 2 < d then f + 1
        else if even f then f else f + 1)"

section \<open>Learners of the library\<close>

text \<open>
  The regressors and the outlier detector come from scikit-learn and are parameters of
  the model: a learner maps a training set to the fitted predictor. What the embedding
  fixes is the library's input validation: \<^verbatim>\<open>fit\<close> raises ValueError on a training
  set of zero samples.
\<close>

type_synonym 'x learner = "('x \<times> real) list \<Rightarrow> 'x \<Rightarrow> real"

definition fit :: "'x learner \<Rightarrow> 'x list \<Rightarrow> real list \<Rightarrow> error + ('x \<Rightarrow> real)" where
  "fit learner X yv = (if X = [] then Inl ValueError else Inr (learner (zip X yv)))"

text \<open>\<^verbatim>\<open>IsolationForest.fit_predict\<close> gives one code per sample (1 inlier, -1
  outlier); assigning a column of another length to the frame raises ValueError.\<close>

type_synonym detector = "(real \<times> real) list \<Rightarrow> int list"

definition fit_predict :: "detector \<Rightarrow> (real \<times> real) list \<Rightarrow> error + int list" where
  "fit_predict det samples =
    (if samples = [] \<or> length (det samples) \<noteq> length samples then Inl ValueError
     else Inr (det samples))"

section \<open>Time-series feature builder\<close>

text \<open>\<^verbatim>\<open>data[data["IsHoliday"] == 1]["StartDate"].unique()\<close>.\<close>

definition holidays_of :: "OrderRecord list \<Rightarrow> date list" where
  "holidays_of data =
    remdups (map OrderRecord.StartDate (filter (\<lambda>r. IsHoliday r = 1) data))"

definition isin :: "'a \<Rightarrow> 'a list \<Rightarrow> int" where
  "isin x xs = (if x \<in> set xs then 1 else 0)"

text \<open>The frame of \<^verbatim>\<open>prepare_enhanced_data\<close> before its final \<^verbatim>\<open>dropna()\<close>. On an
  empty input the minimum date is NaT and \<^verbatim>\<open>pd.date_range\<close> raises ValueError.\<close>

definition enhanced_frame :: "OrderRecord list \<Rightarrow> error + real option DailyRow list" where
  "enhanced_frame data =
    (case (col_min (map OrderRecord.StartDate data), col_max (map OrderRecord.StartDate data)) of
       (Some min_date, Some max_date) \<Rightarrow>
         (let full_dates = date_range min_date max_date;
              daily_orders = groupby_size data;
              ords = map (\<lambda>(d, c). fillna 0 c) (merge_left full_dates daily_orders);
              avg7 = rolling_mean 7 1 ords;
              avg28 = rolling_mean 28 1 ords;
              lag = (\<lambda>k. map (fillna 0) (shift k ords));
              holidays = holidays_of data
          in Inr (map (\<lambda>i.
               \<lparr>day_of_week = weekday (full_dates ! i),
                is_weekend = isin (weekday (full_dates ! i)) [5, 6],
                month = dt_month (full_dates ! i),
                day_of_month = dt_day (full_dates ! i),
                time_idx = full_dates ! i - min_date,
                orders_7d_avg = avg7 ! i,
                orders_28d_avg = avg28 ! i,
                lag_1 = lag 1 ! i,
                lag_7 = lag 7 ! i,
                lag_14 = lag 14 ! i,
                lag_28 = lag 28 ! i,
                is_holiday = isin (full_dates ! i) holidays,
                DailyRow.ds = full_dates ! i,
                orders = ords ! i\<rparr>) [0..<length full_dates]))
     | _ \<Rightarrow> Inl ValueError)"

definition prepare_enhanced_data :: "OrderRecord list \<Rightarrow> error + real DailyRow list" where
  "prepare_enhanced_data data =
    (case enhanced_frame data of Inl e \<Rightarrow> Inl e | Inr rows \<Rightarrow> Inr (dropna rows))"

text \<open>\<^verbatim>\<open>prepare_laundry_data\<close>: the facility's rows grouped by date and counted;
  no date range is built and nothing is merged.\<close>

definition prepare_laundry_data :: "OrderRecord list \<Rightarrow> string \<Rightarrow> int Series list" where
  "prepare_laundry_data df laundry_id =
    (let laundry_df = filter (\<lambda>r. LaundryID r = laundry_id) df
     in map (\<lambda>(k, n). \<lparr>Series.ds = k, y = n\<rparr>) (groupby_size laundry_df))"

section \<open>Customer demand forecaster\<close>

text \<open>\<^verbatim>\<open>int(len(daily_data) * 0.8)\<close>.\<close>

definition train_size :: "nat \<Rightarrow> nat" where
  "train_size n = nat \<lfloor>real n * (8 / 10)\<rfloor>"

text \<open>The dictionary of one pass of the loop over \<^verbatim>\<open>future_dates\<close>. Its entries are
  evaluated in order; the first that can raise is \<^verbatim>\<open>iloc[-1]\<close> on an empty frame.\<close>

definition future_features ::
  "real DailyRow list \<Rightarrow> date list \<Rightarrow> date \<Rightarrow> error + real Features" where
  "future_features daily_data holidays d =
    (case iloc_neg (map orders_7d_avg daily_data) 1 of Inl e \<Rightarrow> Inl e | Inr a7 \<Rightarrow>
     case iloc_neg (map orders_28d_avg daily_data) 1 of Inl e \<Rightarrow> Inl e | Inr a28 \<Rightarrow>
     case iloc_neg (map orders daily_data) 1 of Inl e \<Rightarrow> Inl e | Inr l1 \<Rightarrow>
     case (if 7 \<le> length daily_data then iloc_neg (map orders daily_data) 7 else Inr 0) of
       Inl e \<Rightarrow> Inl e | Inr l7 \<Rightarrow>
     case (if 14 \<le> length daily_data then iloc_neg (map orders daily_data) 14 else Inr 0) of
       Inl e \<Rightarrow> Inl e | Inr l14 \<Rightarrow>
     case (if 28 \<le> length daily_data then iloc_neg (map orders daily_data) 28 else Inr 0) of
       Inl e \<Rightarrow> Inl e | Inr l28 \<Rightarrow>
     case col_min (map DailyRow.ds daily_data) of None \<Rightarrow> Inl IndexError | Some first_date \<Rightarrow>
       Inr \<lparr>day_of_week = weekday d,
            is_weekend = isin (weekday d) [5, 6],
            month = dt_month d,
            day_of_month = dt_day d,
            time_idx = d - first_date,
            orders_7d_avg = a7,
            orders_28d_avg = a28,
            lag_1 = l1,
            lag_7 = l7,
            lag_14 = l14,
            lag_28 = l28,
            is_holiday = isin d holidays\<rparr>)"

fun future_data ::
  "real DailyRow list \<Rightarrow> date list \<Rightarrow> date list \<Rightarrow> error + real Features list" where
  "future_data daily_data holidays [] = Inr []"
| "future_data daily_data holidays (d # future_dates) =
    (case future_features daily_data holidays d of Inl e \<Rightarrow> Inl e | Inr features \<Rightarrow>
     case future_data daily_data holidays future_dates of Inl e \<Rightarrow> Inl e | Inr rest \<Rightarrow>
       Inr (features # rest))"

definition future_days :: nat where
  "future_days = 90"

definition forecast_rows :: "date list \<Rightarrow> real list \<Rightarrow> ForecastRow list" where
  "forecast_rows future_dates future_pred =
    map (\<lambda>(d, p). \<lparr>Series.ds = d, y = None,
                    ForecastRow.yhat = Some (max 0 p),
                    ForecastRow.yhat_lower = Some (max 0 (p * (7 / 10))),
                    ForecastRow.yhat_upper = Some (max 0 (p * (13 / 10)))\<rparr>)
      (zip future_dates future_pred)"

definition history_rows :: "real Series list \<Rightarrow> ForecastRow list" where
  "history_rows historical =
    map (\<lambda>h. \<lparr>Series.ds = Series.ds h, y = Some (y h),
               ForecastRow.yhat = None, ForecastRow.yhat_lower = None,
               ForecastRow.yhat_upper = None\<rparr>) historical"

text \<open>\<^verbatim>\<open>forecast_intermittent_demand\<close>, with the random forest as the parameter
  \<open>rf\<close>. The result is the pair \<^verbatim>\<open>(historical, forecast_df)\<close>, the second being the
  concatenation of the history and the 90 forecast rows.\<close>

definition forecast_intermittent_demand ::
  "real Features learner \<Rightarrow> real DailyRow list \<Rightarrow> OrderRecord list \<Rightarrow>
     error + (real Series list \<times> ForecastRow list)" where
  "forecast_intermittent_demand rf daily_data customer_data =
    (let holidays = holidays_of customer_data;
         X = map Features.truncate daily_data;
         yv = map orders daily_data;
         n = train_size (length daily_data)
     in case fit rf (take n X) (take n yv) of Inl e \<Rightarrow> Inl e | Inr model \<Rightarrow>
        case col_max (map DailyRow.ds daily_data) of None \<Rightarrow> Inl ValueError | Some last_date \<Rightarrow>
          (let future_dates = date_range_periods (last_date + 1) future_days
           in case future_data daily_data holidays future_dates of Inl e \<Rightarrow> Inl e
              | Inr future_df \<Rightarrow>
                  (let future_pred = map model future_df;
                       forecast_df = forecast_rows future_dates future_pred;
                       historical = map (\<lambda>r. \<lparr>Series.ds = DailyRow.ds r, y = orders r\<rparr>) daily_data
                   in Inr (historical, history_rows historical @ forecast_df))))"

section \<open>Customer insights, report and resources\<close>

text \<open>The first two insights of \<^verbatim>\<open>generate_customer_insights\<close>: the days since the
  last order, read against the clock \<open>now\<close> (\<^verbatim>\<open>datetime.now()\<close>), and the average gap
  between consecutive orders (missing for a single order). The remaining insights are
  frequency tables of weekday, item and service names.\<close>

record Insights =
  days_since :: "int option"
  avg_days_between :: "real option"

definition generate_customer_insights :: "datetime \<Rightarrow> OrderRecord list \<Rightarrow> Insights" where
  "generate_customer_insights now data =
    (let last_order = col_max (map OrderRecord.StartDate data);
         order_dates = sort (map OrderRecord.StartDate data);
         diffs = map (\<lambda>(a, b). real_of_int (b - a)) (zip order_dates (tl order_dates))
     in \<lparr>days_since = map_option (\<lambda>l. (now - timestamp l) div day_us) last_order,
         avg_days_between =
           (if 1 < length order_dates then Some (sum_list diffs / real (length diffs))
            else None)\<rparr>)"

text \<open>The figures \<^verbatim>\<open>generate_business_report\<close> interpolates into its text. An empty
  forecast period fails at \<^verbatim>\<open>strftime\<close> of NaT, and \<^verbatim>\<open>round\<close> of a missing mean
  raises ValueError.\<close>

record BusinessReport =
  avg_daily :: real
  total_orders :: real
  avg_lower :: real
  avg_upper :: real
  min_stock :: int
  weekly_stock :: "int \<times> int"
  buffer_stock :: int

definition forecast_period_after :: "date option \<Rightarrow> ForecastRow list \<Rightarrow> ForecastRow list" where
  "forecast_period_after last_date forecast =
    (case last_date of None \<Rightarrow> [] | Some m \<Rightarrow> filter (\<lambda>r. m < Series.ds r) forecast)"

definition generate_business_report ::
  "real Series list \<Rightarrow> ForecastRow list \<Rightarrow> error + BusinessReport" where
  "generate_business_report actual forecast =
    (let forecast_period = forecast_period_after (col_max (map Series.ds actual)) forecast
     in if forecast_period = [] then Inl ValueError
        else
          case (col_mean (map ForecastRow.yhat forecast_period),
                col_mean (map ForecastRow.yhat_lower forecast_period),
                col_mean (map ForecastRow.yhat_upper forecast_period)) of
            (Some daily, Some lower, Some upper) \<Rightarrow>
              Inr \<lparr>avg_daily = daily,
                   total_orders = col_sum (map ForecastRow.yhat forecast_period),
                   avg_lower = lower,
                   avg_upper = upper,
                   min_stock = max 1 (py_round lower),
                   weekly_stock = (py_round (daily * 7 * (8 / 10)), py_round (daily * 7 * (12 / 10))),
                   buffer_stock = py_round (upper * 2)\<rparr>
          | _ \<Rightarrow> Inl ValueError)"

text \<open>\<^verbatim>\<open>customer_resource_analysis\<close>: the water and electricity totals per order date,
  and the average water and electricity per order. The sums are numpy floats, so a
  division by zero gives a non-finite value and does not raise; \<open>None\<close> stands for a
  missing or non-finite float.\<close>

definition np_divide :: "real \<Rightarrow> int \<Rightarrow> real option" where
  "np_divide a n = (if n = 0 then None else Some (a / real_of_int n))"

definition np_multiply :: "real option \<Rightarrow> real option \<Rightarrow> real option" where
  "np_multiply a b = (case (a, b) of (Some u, Some v) \<Rightarrow> Some (u * v) | _ \<Rightarrow> None)"

definition customer_resource_analysis ::
  "OrderRecord list \<Rightarrow> (date \<times> real \<times> real) list \<times> real option \<times> real option" where
  "customer_resource_analysis customer_data =
    (let total_orders = int (length customer_data);
         avg_water = np_divide (sum_list (map Water_Litres customer_data)) total_orders;
         avg_electricity = np_divide (sum_list (map Electricity_kWh customer_data)) total_orders;
         resource_usage =
           map (\<lambda>k. (k, sum_list (map Water_Litres (group customer_data k)),
                        sum_list (map Electricity_kWh (group customer_data k))))
             (groupby_keys (map OrderRecord.StartDate customer_data))
     in (resource_usage, avg_water, avg_electricity))"

text \<open>\<^verbatim>\<open>calculate_future_resource\<close>: the forecast rows dated after the clock
  (\<^verbatim>\<open>forecast["ds"] > datetime.now()\<close>), with the projected needs.\<close>

definition calculate_future_resource ::
  "datetime \<Rightarrow> ForecastRow list \<Rightarrow> real option \<Rightarrow> real option \<Rightarrow> FutureResourceRow list" where
  "calculate_future_resource now forecast avg_water avg_electricity =
    map (\<lambda>r. ForecastRow.extend r
           \<lparr>Water_Needed = np_multiply (ForecastRow.yhat r) avg_water,
            Electricity_Needed = np_multiply (ForecastRow.yhat r) avg_electricity\<rparr>)
      (filter (\<lambda>r. now < timestamp (Series.ds r)) forecast)"

section \<open>Facility demand forecaster\<close>

text \<open>\<^verbatim>\<open>forecast_demand_laundry_rf\<close>, with the random forest as the parameter \<open>rf\<close>.
  The model inputs are the triples (day of year, day of week, ISO week).\<close>

definition calendar_features :: "date \<Rightarrow> int \<times> int \<times> int" where
  "calendar_features d = (dayofyear d, weekday d, isoweek d)"

definition forecast_demand_laundry_rf ::
  "(int \<times> int \<times> int) learner \<Rightarrow> int Series list \<Rightarrow> nat \<Rightarrow>
     error + (CalendarRow list \<times> ((int \<times> int \<times> int) \<Rightarrow> real) \<times> FutureRow list)" where
  "forecast_demand_laundry_rf rf daily_data forecast_days =
    (let data = map (\<lambda>r. Series.extend r
                   \<lparr>CalendarRow.DayOfYear = dayofyear (Series.ds r),
                    CalendarRow.DayOfWeek = weekday (Series.ds r),
                    CalendarRow.WeekOfYear = isoweek (Series.ds r)\<rparr>) daily_data;
         X = map (\<lambda>r. (CalendarRow.DayOfYear r, CalendarRow.DayOfWeek r, CalendarRow.WeekOfYear r)) data;
         yv = map (\<lambda>r. real_of_int (y r)) data
     in case fit rf X yv of Inl e \<Rightarrow> Inl e | Inr model \<Rightarrow>
        case col_max (map Series.ds data) of None \<Rightarrow> Inl ValueError | Some last_date \<Rightarrow>
          (let future_dates = date_range_periods (last_date + 1) forecast_days;
               future_df = map (\<lambda>d.
                 (let p = model (calendar_features d)
                  in \<lparr>FutureRow.ds = d,
                      FutureRow.DayOfYear = dayofyear d,
                      FutureRow.DayOfWeek = weekday d,
                      FutureRow.WeekOfYear = isoweek d,
                      FutureRow.yhat = p,
                      FutureRow.yhat_lower = p - 15 / 10,
                      FutureRow.yhat_upper = p + 15 / 10\<rparr>)) future_dates
           in Inr (data, model, future_df)))"

text \<open>\<^verbatim>\<open>detect_low_demand_days\<close>: \<open>None\<close> is the pair \<^verbatim>\<open>(None, None)\<close> returned for
  a facility without rows.\<close>

definition detect_low_demand_days ::
  "(int \<times> int \<times> int) learner \<Rightarrow> OrderRecord list \<Rightarrow> string \<Rightarrow> int \<Rightarrow>
     error + (FutureRow list \<times> FutureRow list) option" where
  "detect_low_demand_days rf df laundry_id threshold =
    (let daily = prepare_laundry_data df laundry_id
     in if daily = [] then Inr None
        else case forecast_demand_laundry_rf rf daily 7 of Inl e \<Rightarrow> Inl e
             | Inr (data, model, forecast) \<Rightarrow>
                 Inr (Some (forecast,
                   filter (\<lambda>r. FutureRow.yhat r < real_of_int threshold) forecast)))"

section \<open>Resource-consumption analyzer\<close>

definition alert_text :: string where
  "alert_text = [CHR 0xF0, CHR 0x9F, CHR 0x9A, CHR 0xA8] @ '' Alert: High usage on low order day''"

definition normal_text :: string where
  "normal_text = [CHR 0xE2, CHR 0x9C, CHR 0x85] @ '' Normal''"

definition check_alerts :: "'a ResourceDayRow_scheme \<Rightarrow> string" where
  "check_alerts row =
    (if Anomaly row = - 1 \<and> OrderCount row < 5 then alert_text else normal_text)"

definition anomaly_label :: "int \<Rightarrow> string option" where
  "anomaly_label = map_of [(1, ''Normal''), (- 1, ''Anomaly'')]"

text \<open>\<^verbatim>\<open>laundry_resource_analysis\<close>, with the linear regression \<open>lr\<close> and the isolation
  forest \<open>det\<close> as parameters. The facility's rows are grouped by date; \<^verbatim>\<open>OrderCount\<close>
  is the \<^verbatim>\<open>"count"\<close> aggregation of the column \<^verbatim>\<open>TenantID\<close>.\<close>

definition laundry_resource_analysis ::
  "real learner \<Rightarrow> detector \<Rightarrow> OrderRecord list \<Rightarrow> string \<Rightarrow> error + AlertRow list" where
  "laundry_resource_analysis lr det df laundry_id =
    (let laundry_df = filter (\<lambda>r. LaundryID r = laundry_id) df;
         keys = groupby_keys (map OrderRecord.StartDate laundry_df);
         cnt = map (\<lambda>k. count (map (\<lambda>r. Some (TenantID r)) (group laundry_df k))) keys;
         water = map (\<lambda>k. sum_list (map Water_Litres (group laundry_df k))) keys;
         elec = map (\<lambda>k. sum_list (map Electricity_kWh (group laundry_df k))) keys;
         X = map real_of_int cnt
     in case fit lr X water of Inl e \<Rightarrow> Inl e | Inr water_model \<Rightarrow>
        case fit lr X elec of Inl e \<Rightarrow> Inl e | Inr elec_model \<Rightarrow>
          (let werr = map (\<lambda>i. water ! i - water_model (X ! i)) [0..<length keys];
               eerr = map (\<lambda>i. elec ! i - elec_model (X ! i)) [0..<length keys]
           in case fit_predict det (zip werr eerr) of Inl e \<Rightarrow> Inl e | Inr anomaly \<Rightarrow>
                Inr (map (\<lambda>i.
                  (let row = \<lparr>ResourceDayRow.StartDate = keys ! i,
                              OrderCount = cnt ! i,
                              WaterConsumption = water ! i,
                              ElectricityConsumption = elec ! i,
                              ExpectedWater = water_model (X ! i),
                              ExpectedElectricity = elec_model (X ! i),
                              WaterError = werr ! i,
                              ElectricError = eerr ! i,
                              Anomaly = anomaly ! i,
                              AnomalyLabel = anomaly_label (anomaly ! i)\<rparr>
                   in ResourceDayRow.extend row \<lparr>Alert = check_alerts row\<rparr>)) [0..<length keys])))"

section \<open>Entry points\<close>

text \<open>What an entry point hands to the presentation layer: nothing (no identifier
  typed), the no-data box, or the figures it renders. An exception that escapes the
  entry point is \<open>Inl\<close>.\<close>

datatype 'a page = Idle | NoData | Page 'a

datatype tab = Historical | Forecast | Resources | Report

datatype customer_view =
    HistoricalView Insights
  | ForecastView "real Series list" "ForecastRow list"
  | ResourcesView "FutureResourceRow list"
  | ReportView BusinessReport

text \<open>The subsections of the customer page, without their charts.
  \<^verbatim>\<open>show_resource_analysis\<close> of \<^verbatim>\<open>customer_analysis.py\<close> is
  \<open>customer_show_resource_analysis\<close> here: \<^verbatim>\<open>laundry_analysis.py\<close> has a function of the
  same name.\<close>

definition show_forecast_analysis ::
  "real Features learner \<Rightarrow> OrderRecord list \<Rightarrow> error + customer_view" where
  "show_forecast_analysis rf customer_data =
    (case prepare_enhanced_data customer_data of Inl e \<Rightarrow> Inl e | Inr daily_orders \<Rightarrow>
     case forecast_intermittent_demand rf daily_orders customer_data of Inl e \<Rightarrow> Inl e
     | Inr (actual, forecast) \<Rightarrow> Inr (ForecastView actual forecast))"

definition customer_show_resource_analysis ::
  "real Features learner \<Rightarrow> datetime \<Rightarrow> OrderRecord list \<Rightarrow> error + customer_view" where
  "customer_show_resource_analysis rf now customer_data =
    (case prepare_enhanced_data customer_data of Inl e \<Rightarrow> Inl e | Inr daily_orders \<Rightarrow>
     case forecast_intermittent_demand rf daily_orders customer_data of Inl e \<Rightarrow> Inl e
     | Inr (actual, forecast) \<Rightarrow>
         (case customer_resource_analysis customer_data of
            (resource_usage, avg_water, avg_electricity) \<Rightarrow>
            Inr (ResourcesView (calculate_future_resource now forecast avg_water avg_electricity))))"

definition show_business_report ::
  "real Features learner \<Rightarrow> OrderRecord list \<Rightarrow> error + customer_view" where
  "show_business_report rf customer_data =
    (case prepare_enhanced_data customer_data of Inl e \<Rightarrow> Inl e | Inr daily_orders \<Rightarrow>
     case forecast_intermittent_demand rf daily_orders customer_data of Inl e \<Rightarrow> Inl e
     | Inr (actual, forecast) \<Rightarrow>
         (case generate_business_report actual forecast of Inl e \<Rightarrow> Inl e
          | Inr report \<Rightarrow> Inr (ReportView report)))"

text \<open>\<^verbatim>\<open>customer_section\<close>: the rows of the customer are selected and the empty
  selection is answered before any subsection runs.\<close>

definition customer_section ::
  "real Features learner \<Rightarrow> datetime \<Rightarrow> OrderRecord list \<Rightarrow> string \<Rightarrow> tab \<Rightarrow>
     error + customer_view page" where
  "customer_section rf now df tenant_id sub =
    (if tenant_id = [] then Inr Idle
     else
       (let customer_data = filter (\<lambda>r. TenantID r = tenant_id) df
        in if customer_data = [] then Inr NoData
           else map_sum id Page
             (case sub of
                Historical \<Rightarrow> Inr (HistoricalView (generate_customer_insights now customer_data))
              | Forecast \<Rightarrow> show_forecast_analysis rf customer_data
              | Resources \<Rightarrow> customer_show_resource_analysis rf now customer_data
              | Report \<Rightarrow> show_business_report rf customer_data)))"

text \<open>\<^verbatim>\<open>show_peak_forecast\<close> and \<^verbatim>\<open>show_peak_alerts\<close>: the 30-day forecast and its
  peak days, \<^verbatim>\<open>forecast[forecast["yhat"] > peak_threshold]\<close>.\<close>

definition show_peak_forecast ::
  "(int \<times> int \<times> int) learner \<Rightarrow> OrderRecord list \<Rightarrow> string \<Rightarrow> int \<Rightarrow>
     error + (FutureRow list \<times> FutureRow list) page" where
  "show_peak_forecast rf df laundry_id peak_threshold =
    (let daily = prepare_laundry_data df laundry_id
     in if daily = [] then Inr NoData
        else case forecast_demand_laundry_rf rf daily 30 of Inl e \<Rightarrow> Inl e
             | Inr (data, model, forecast) \<Rightarrow>
                 Inr (Page (forecast,
                   filter (\<lambda>r. real_of_int peak_threshold < FutureRow.yhat r) forecast)))"

definition show_peak_alerts ::
  "(int \<times> int \<times> int) learner \<Rightarrow> OrderRecord list \<Rightarrow> string \<Rightarrow> int \<Rightarrow>
     error + FutureRow list page" where
  "show_peak_alerts rf df laundry_id peak_threshold =
    (let daily = prepare_laundry_data df laundry_id
     in if daily = [] then Inr NoData
        else case forecast_demand_laundry_rf rf daily 30 of Inl e \<Rightarrow> Inl e
             | Inr (data, model, forecast) \<Rightarrow>
                 Inr (Page (filter (\<lambda>r. real_of_int peak_threshold < FutureRow.yhat r) forecast)))"

text \<open>\<^verbatim>\<open>show_resource_analysis\<close> of \<^verbatim>\<open>laundry_analysis.py\<close>: the analysis runs first
  and the empty result is tested afterwards. The page holds the daily table, the two
  overall per-order averages, the two per-day efficiency series and the low-demand
  forecast.\<close>

record ResourcePage =
  daily_usage :: "AlertRow list"
  avg_water_per_order :: "real option"
  avg_electricity_per_order :: "real option"
  water_efficiency :: "real option list"
  electricity_efficiency :: "real option list"
  low_demand_forecast :: "(FutureRow list \<times> FutureRow list) option"

definition show_resource_analysis ::
  "real learner \<Rightarrow> detector \<Rightarrow> (int \<times> int \<times> int) learner \<Rightarrow> OrderRecord list \<Rightarrow> string \<Rightarrow> int \<Rightarrow>
     error + ResourcePage page" where
  "show_resource_analysis lr det rf df laundry_id low_threshold =
    (case laundry_resource_analysis lr det df laundry_id of Inl e \<Rightarrow> Inl e
     | Inr usage \<Rightarrow>
         if usage = [] then Inr NoData
         else case detect_low_demand_days rf df laundry_id low_threshold of Inl e \<Rightarrow> Inl e
              | Inr low \<Rightarrow>
                  Inr (Page
                    \<lparr>daily_usage = usage,
                     avg_water_per_order =
                       np_divide (sum_list (map WaterConsumption usage)) (sum_list (map OrderCount usage)),
                     avg_electricity_per_order =
                       np_divide (sum_list (map ElectricityConsumption usage)) (sum_list (map OrderCount usage)),
                     water_efficiency =
                       map (\<lambda>r. np_divide (WaterConsumption r) (OrderCount r)) usage,
                     electricity_efficiency =
                       map (\<lambda>r. np_divide (ElectricityConsumption r) (OrderCount r)) usage,
                     low_demand_forecast = low\<rparr>))"

section \<open>Lemmas on the frame operations\<close>

lemma col_min_Min: "xs \<noteq> [] \<Longrightarrow> col_min xs = Some (Min (set xs))"
  by (cases xs) (simp_all add: Min.set_eq_fold del: set_simps)

lemma col_max_Max: "xs \<noteq> [] \<Longrightarrow> col_max xs = Some (Max (set xs))"
  by (cases xs) (simp_all add: Max.set_eq_fold del: set_simps)

lemma observed_Some: "observed (map Some xs) = xs"
  by (induction xs) (simp_all add: observed_def)

lemma group_empty: "k \<notin> set (map OrderRecord.StartDate data) \<Longrightarrow> group data k = []"
  by (auto simp: group_def filter_empty_conv)

lemma map_of_groupby_size:
  "map_of (groupby_size data) k =
     (if k \<in> set (map OrderRecord.StartDate data) then Some (int (length (group data k))) else None)"
  by (simp add: groupby_size_def groupby_keys_def map_of_map_restrict restrict_map_def)

lemma merged_orders:
  "map (\<lambda>(d, c). fillna 0 c) (merge_left full_dates (groupby_size data)) =
     map (\<lambda>d. Some (real (length (group data d)))) full_dates"
  by (auto simp: merge_left_def fillna_def map_of_groupby_size group_empty)

lemma rolling_mean_Some:
  assumes "0 < w"
  shows "rolling_mean w 1 (map Some xs) =
     map (\<lambda>i. Some (sum_list (drop (Suc i - w) (take (Suc i) xs)) / real (min w (Suc i))))
       [0..<length xs]"
proof -
  have "length (drop (Suc i - w) (take (Suc i) xs)) = min w (Suc i)" if "i < length xs" for i
    using that assms by auto
  moreover have "drop (Suc i - w) (take (Suc i) (map Some xs)) = map Some (drop (Suc i - w) (take (Suc i) xs))" for i
    by (simp add: take_map drop_map)
  ultimately show ?thesis
    using assms by (auto simp: rolling_mean_def observed_Some Let_def)
qed

lemma shift_fillna:
  "map (fillna 0) (shift k (map Some xs)) =
     map (\<lambda>i. Some (if i < k then 0 else xs ! (i - k))) [0..<length xs]"
proof (rule nth_equalityI)
  show "length (map (fillna 0) (shift k (map Some xs))) =
        length (map (\<lambda>i. Some (if i < k then 0 else xs ! (i - k))) [0..<length xs])"
    by (simp add: shift_def)
next
  fix i assume "i < length (map (fillna 0) (shift k (map Some xs)))"
  then have i: "i < length xs" by (simp add: shift_def)
  show "map (fillna 0) (shift k (map Some xs)) ! i =
        map (\<lambda>i. Some (if i < k then 0 else xs ! (i - k))) [0..<length xs] ! i"
  proof (cases "i < k")
    case True
    with i show ?thesis by (simp add: shift_def nth_append fillna_def)
  next
    case False
    with i have "min k (length xs) = k" by simp
    with False i show ?thesis by (simp add: shift_def nth_append fillna_def)
  qed
qed

lemma dropna_map_upt:
  assumes "\<And>i. i < n \<Longrightarrow> complete (F i)"
  shows "dropna (map F [0..<n]) = map (\<lambda>i. cells_of (F i)) [0..<n]"
proof -
  have "filter complete (map F [0..<n]) = map F [0..<n]"
    by (rule filter_True) (auto simp: assms)
  then show ?thesis by (simp add: dropna_def)
qed

lemma map_upt_eqI: "(\<And>i. i < n \<Longrightarrow> f i = g i) \<Longrightarrow> map f [0..<n] = map g [0..<n]"
  by simp

lemma prepare_enhanced_data_rows:
  fixes data :: "OrderRecord list"
  defines "mn \<equiv> Min (set (map OrderRecord.StartDate data))"
  defines "mx \<equiv> Max (set (map OrderRecord.StartDate data))"
  defines "cs \<equiv> map (\<lambda>d. real (length (group data d))) [mn..mx]"
  assumes ne: "data \<noteq> []"
  shows "prepare_enhanced_data data =
    Inr (map (\<lambda>i.
      \<lparr>day_of_week = weekday ([mn..mx] ! i),
       is_weekend = isin (weekday ([mn..mx] ! i)) [5, 6],
       month = dt_month ([mn..mx] ! i),
       day_of_month = dt_day ([mn..mx] ! i),
       time_idx = [mn..mx] ! i - mn,
       orders_7d_avg = sum_list (drop (Suc i - 7) (take (Suc i) cs)) / real (min 7 (Suc i)),
       orders_28d_avg = sum_list (drop (Suc i - 28) (take (Suc i) cs)) / real (min 28 (Suc i)),
       lag_1 = (if i < 1 then 0 else cs ! (i - 1)),
       lag_7 = (if i < 7 then 0 else cs ! (i - 7)),
       lag_14 = (if i < 14 then 0 else cs ! (i - 14)),
       lag_28 = (if i < 28 then 0 else cs ! (i - 28)),
       is_holiday = isin ([mn..mx] ! i) (holidays_of data),
       DailyRow.ds = [mn..mx] ! i,
       orders = cs ! i\<rparr>) [0..<length [mn..mx]])"
proof -
  have d: "map OrderRecord.StartDate data \<noteq> []" using ne by simp
  have cmin: "col_min (map OrderRecord.StartDate data) = Some mn"
    unfolding mn_def by (rule col_min_Min[OF d])
  have cmax: "col_max (map OrderRecord.StartDate data) = Some mx"
    unfolding mx_def by (rule col_max_Max[OF d])
  have ords: "map (\<lambda>(d, c). fillna 0 c) (merge_left [mn..mx] (groupby_size data)) = map Some cs"
    by (simp add: merged_orders cs_def)
  have l: "length cs = length [mn..mx]" by (simp add: cs_def)
  have r7: "rolling_mean 7 1 (map Some cs) =
      map (\<lambda>i. Some (sum_list (drop (Suc i - 7) (take (Suc i) cs)) / real (min 7 (Suc i)))) [0..<length cs]"
    by (rule rolling_mean_Some) simp
  have r28: "rolling_mean 28 1 (map Some cs) =
      map (\<lambda>i. Some (sum_list (drop (Suc i - 28) (take (Suc i) cs)) / real (min 28 (Suc i)))) [0..<length cs]"
    by (rule rolling_mean_Some) simp
  show ?thesis
    unfolding prepare_enhanced_data_def enhanced_frame_def cmin cmax date_range_def Let_def ords
      r7 r28 shift_fillna prod.case option.case sum.case
    apply (subst dropna_map_upt)
     apply (simp add: complete_def l)
    apply (simp only: sum.inject)
    apply (rule map_upt_eqI)
    apply (simp add: cells_of_def l)
    done
qed

lemma prepare_laundry_data_ds:
  "map Series.ds (prepare_laundry_data df lid) =
     sort (remdups (map OrderRecord.StartDate (filter (\<lambda>r. LaundryID r = lid) df)))"
  by (simp add: prepare_laundry_data_def groupby_size_def groupby_keys_def o_def Let_def)

lemma prepare_laundry_data_y:
  assumes "r \<in> set (prepare_laundry_data df lid)"
  shows "y r = int (length (filter (\<lambda>x. LaundryID x = lid \<and> OrderRecord.StartDate x = Series.ds r) df))
       \<and> 1 \<le> y r"
proof -
  let ?L = "filter (\<lambda>r. LaundryID r = lid) df"
  from assms obtain k where k: "k \<in> set (map OrderRecord.StartDate ?L)"
    and r: "r = \<lparr>Series.ds = k, y = int (length (group ?L k))\<rparr>"
    by (auto simp: prepare_laundry_data_def groupby_size_def groupby_keys_def Let_def)
  from k have "group ?L k \<noteq> []"
    by (auto simp: group_def filter_empty_conv)
  then have "1 \<le> int (length (group ?L k))"
    by (cases "group ?L k") simp_all
  moreover have "group ?L k = filter (\<lambda>x. LaundryID x = lid \<and> OrderRecord.StartDate x = k) df"
    by (simp add: group_def conj_commute)
  ultimately show ?thesis using r by simp
qed

section \<open>The daily series of the feature builder\<close>

text \<open>
  Claim C1 (as amended). For a non-empty set of order rows, \<^verbatim>\<open>prepare_enhanced_data\<close>
  returns exactly one row per calendar day from the earliest to the latest order date,
  in increasing order and without gaps, and the \<^verbatim>\<open>orders\<close> cell of each row is the
  number of order rows of that day (zero on a day without orders).
  \<^verbatim>\<open>prepare_laundry_data\<close> builds no date range: its frame has one row per date on
  which the facility has an order, in strictly increasing date order, each with the
  number of that day's order rows, which is at least one; a day without orders has no
  row.
\<close>

theorem daily_series_shape:
  "(data \<noteq> [] \<longrightarrow>
      (\<exists>rows. prepare_enhanced_data data = Inr rows \<and>
         map DailyRow.ds rows =
           [Min (set (map OrderRecord.StartDate data))..Max (set (map OrderRecord.StartDate data))] \<and>
         (\<forall>r\<in>set rows.
            orders r = real (length (filter (\<lambda>x. OrderRecord.StartDate x = DailyRow.ds r) data))))) \<and>
   sorted_wrt (<) (map Series.ds (prepare_laundry_data df lid)) \<and>
   set (map Series.ds (prepare_laundry_data df lid)) =
     OrderRecord.StartDate ` {r \<in> set df. LaundryID r = lid} \<and>
   (\<forall>r\<in>set (prepare_laundry_data df lid).
      y r = int (length (filter (\<lambda>x. LaundryID x = lid \<and> OrderRecord.StartDate x = Series.ds r) df)) \<and>
      1 \<le> y r)"
proof (intro conjI impI ballI)
  assume ne: "data \<noteq> []"
  let ?mn = "Min (set (map OrderRecord.StartDate data))"
  let ?mx = "Max (set (map OrderRecord.StartDate data))"
  show "\<exists>rows. prepare_enhanced_data data = Inr rows \<and>
         map DailyRow.ds rows = [?mn..?mx] \<and>
         (\<forall>r\<in>set rows.
            orders r = real (length (filter (\<lambda>x. OrderRecord.StartDate x = DailyRow.ds r) data)))"
    unfolding prepare_enhanced_data_rows[OF ne]
    using map_nth[of "[?mn..?mx]"]
    by (auto simp: o_def group_def)
next
  show "sorted_wrt (<) (map Series.ds (prepare_laundry_data df lid))"
    unfolding prepare_laundry_data_ds by (simp add: strict_sorted_iff)
next
  show "set (map Series.ds (prepare_laundry_data df lid)) =
     OrderRecord.StartDate ` {r \<in> set df. LaundryID r = lid}"
    unfolding prepare_laundry_data_ds by auto
next
  fix r assume "r \<in> set (prepare_laundry_data df lid)"
  then show "y r = int (length (filter (\<lambda>x. LaundryID x = lid \<and> OrderRecord.StartDate x = Series.ds r) df))"
    and "1 \<le> y r"
    using prepare_laundry_data_y by blast+
qed

text \<open>The facility with orders on day 0 and day 2 only: the frame of
  \<^verbatim>\<open>prepare_laundry_data\<close> has no row for day 1.\<close>

theorem daily_series_counterexample:
  "map Series.ds (prepare_laundry_data
      [\<lparr>TenantID = ''T1'', LaundryID = ''L1'', OrderRecord.StartDate = 0, Item = ''Shirt'',
        Service = ''Wash'', Water_Litres = 40, Electricity_kWh = 2, IsHoliday = 0, IsWeekend = 0\<rparr>,
       \<lparr>TenantID = ''T2'', LaundryID = ''L1'', OrderRecord.StartDate = 2, Item = ''Shirt'',
        Service = ''Wash'', Water_Litres = 40, Electricity_kWh = 2, IsHoliday = 0, IsWeekend = 1\<rparr>]
      ''L1'') = [0, 2]"
  by (simp add: prepare_laundry_data_def groupby_size_def groupby_keys_def Let_def)

theorem daily_series_shape_witness:
  "[\<lparr>TenantID = ''T1'', LaundryID = ''L1'', OrderRecord.StartDate = 0, Item = ''Shirt'',
        Service = ''Wash'', Water_Litres = 40, Electricity_kWh = 2, IsHoliday = 0, IsWeekend = 0\<rparr>,
       \<lparr>TenantID = ''T1'', LaundryID = ''L1'', OrderRecord.StartDate = 2, Item = ''Shirt'',
        Service = ''Wash'', Water_Litres = 40, Electricity_kWh = 2, IsHoliday = 0, IsWeekend = 1\<rparr>] \<noteq> [] \<and>
   (\<exists>rows. prepare_enhanced_data
      [\<lparr>TenantID = ''T1'', LaundryID = ''L1'', OrderRecord.StartDate = 0, Item = ''Shirt'',
        Service = ''Wash'', Water_Litres = 40, Electricity_kWh = 2, IsHoliday = 0, IsWeekend = 0\<rparr>,
       \<lparr>TenantID = ''T1'', LaundryID = ''L1'', OrderRecord.StartDate = 2, Item = ''Shirt'',
        Service = ''Wash'', Water_Litres = 40, Electricity_kWh = 2, IsHoliday = 0, IsWeekend = 1\<rparr>] = Inr rows \<and>
      map DailyRow.ds rows = [0, 1, 2] \<and> map orders rows = [1, 0, 1])"
proof -
  let ?d = "[\<lparr>TenantID = ''T1'', LaundryID = ''L1'', OrderRecord.StartDate = 0, Item = ''Shirt'',
        Service = ''Wash'', Water_Litres = 40, Electricity_kWh = 2, IsHoliday = 0, IsWeekend = 0\<rparr>,
       \<lparr>TenantID = ''T1'', LaundryID = ''L1'', OrderRecord.StartDate = 2, Item = ''Shirt'',
        Service = ''Wash'', Water_Litres = 40, Electricity_kWh = 2, IsHoliday = 0, IsWeekend = 1\<rparr>]"
  have ne: "?d \<noteq> []" by simp
  from daily_series_shape[of ?d, THEN conjunct1, rule_format, OF ne] obtain rows where
    r: "prepare_enhanced_data ?d = Inr rows" and
    ds0: "map DailyRow.ds rows =
      [Min (set (map OrderRecord.StartDate ?d))..Max (set (map OrderRecord.StartDate ?d))]" and
    o: "\<forall>r\<in>set rows. orders r = real (length (filter (\<lambda>x. OrderRecord.StartDate x = DailyRow.ds r) ?d))"
    by blast
  have "[Min (set (map OrderRecord.StartDate ?d))..Max (set (map OrderRecord.StartDate ?d))] = [0, 1, 2]"
    by (simp add: upto_rec1)
  with ds0 have ds: "map DailyRow.ds rows = [0, 1, 2]" by simp
  have "map orders rows = map (\<lambda>k. real (length (filter (\<lambda>x. OrderRecord.StartDate x = k) ?d))) (map DailyRow.ds rows)"
    using o by (simp add: o_def)
  then have "map orders rows = [1, 0, 1]" unfolding ds by simp
  with r ds ne show ?thesis by simp
qed

section \<open>Lemmas on the forecasters\<close>

lemma iloc_neg_last: "xs \<noteq> [] \<Longrightarrow> iloc_neg (map f xs) 1 = Inr (f (last xs))"
  by (simp add: iloc_neg_def last_conv_nth Suc_le_eq)

lemma iloc_neg_nth:
  "0 < k \<Longrightarrow> k \<le> length xs \<Longrightarrow> iloc_neg (map f xs) k = Inr (f (xs ! (length xs - k)))"
  by (simp add: iloc_neg_def Suc_le_eq)

lemma future_features_Inr:
  assumes "daily \<noteq> []"
  shows "future_features daily hol d =
    Inr \<lparr>day_of_week = weekday d,
         is_weekend = isin (weekday d) [5, 6],
         month = dt_month d,
         day_of_month = dt_day d,
         time_idx = d - Min (set (map DailyRow.ds daily)),
         orders_7d_avg = orders_7d_avg (last daily),
         orders_28d_avg = orders_28d_avg (last daily),
         lag_1 = orders (last daily),
         lag_7 = (if 7 \<le> length daily then orders (daily ! (length daily - 7)) else 0),
         lag_14 = (if 14 \<le> length daily then orders (daily ! (length daily - 14)) else 0),
         lag_28 = (if 28 \<le> length daily then orders (daily ! (length daily - 28)) else 0),
         is_holiday = isin d hol\<rparr>"
proof -
  have m: "col_min (map DailyRow.ds daily) = Some (Min (set (map DailyRow.ds daily)))"
    using assms by (intro col_min_Min) simp
  show ?thesis
    unfolding future_features_def iloc_neg_last[OF assms] m
    by (simp add: iloc_neg_nth)
qed

lemma future_data_Inr:
  assumes "daily \<noteq> []"
  shows "future_data daily hol dates =
    Inr (map (\<lambda>d. projr (future_features daily hol d)) dates)"
  by (induction dates) (simp_all add: future_features_Inr[OF assms])

lemma future_data_rows:
  assumes "daily \<noteq> []" and "future_data daily hol dates = Inr fd"
  shows "length fd = length dates"
    and "i < length dates \<Longrightarrow> future_features daily hol (dates ! i) = Inr (fd ! i)"
    and "f \<in> set fd \<Longrightarrow> \<exists>d\<in>set dates. future_features daily hol d = Inr f"
  using assms(2) unfolding future_data_Inr[OF assms(1)]
  by (auto simp: future_features_Inr[OF assms(1)])

lemma train_size_pos: "2 \<le> n \<Longrightarrow> 0 < train_size n"
proof -
  assume "2 \<le> n"
  then have "1 \<le> real n * (8 / 10)" by simp
  then have "1 \<le> \<lfloor>real n * (8 / 10)\<rfloor>" by linarith
  then show ?thesis by (simp add: train_size_def)
qed

lemma train_size_small: "n \<le> 1 \<Longrightarrow> train_size n = 0"
proof -
  assume "n \<le> 1"
  then have "real n * (8 / 10) < 1" by simp
  then have "\<lfloor>real n * (8 / 10)\<rfloor> \<le> 0" by linarith
  then show ?thesis by (simp add: train_size_def)
qed

lemma forecast_intermittent_demand_Inr:
  assumes "forecast_intermittent_demand rf daily cust = Inr (hist, fc)"
  shows "2 \<le> length daily"
    and "hist = map (\<lambda>r. \<lparr>Series.ds = DailyRow.ds r, y = orders r\<rparr>) daily"
    and "\<exists>fd model.
           future_data daily (holidays_of cust)
             (date_range_periods (Max (set (map DailyRow.ds daily)) + 1) future_days) = Inr fd \<and>
           fc = history_rows hist @
                forecast_rows (date_range_periods (Max (set (map DailyRow.ds daily)) + 1) future_days)
                  (map model fd)"
proof -
  show len: "2 \<le> length daily"
  proof (rule ccontr)
    assume "\<not> 2 \<le> length daily"
    then have "train_size (length daily) = 0" by (intro train_size_small) simp
    with assms show False by (simp add: forecast_intermittent_demand_def fit_def Let_def)
  qed
  then have ne: "daily \<noteq> []" by auto
  have m: "col_max (map DailyRow.ds daily) = Some (Max (set (map DailyRow.ds daily)))"
    using ne by (intro col_max_Max) simp
  from assms show "hist = map (\<lambda>r. \<lparr>Series.ds = DailyRow.ds r, y = orders r\<rparr>) daily"
    unfolding forecast_intermittent_demand_def Let_def m
    by (auto split: sum.splits simp del: set_map)
  from assms show "\<exists>fd model.
           future_data daily (holidays_of cust)
             (date_range_periods (Max (set (map DailyRow.ds daily)) + 1) future_days) = Inr fd \<and>
           fc = history_rows hist @
                forecast_rows (date_range_periods (Max (set (map DailyRow.ds daily)) + 1) future_days)
                  (map model fd)"
    unfolding forecast_intermittent_demand_def Let_def m
    by (auto split: sum.splits simp del: set_map)
qed

lemma forecast_intermittent_demand_total:
  assumes "2 \<le> length daily"
  shows "\<exists>hist fc. forecast_intermittent_demand rf daily cust = Inr (hist, fc)"
proof -
  from assms have ne: "daily \<noteq> []" by auto
  have m: "col_max (map DailyRow.ds daily) = Some (Max (set (map DailyRow.ds daily)))"
    using ne by (intro col_max_Max) simp
  have "0 < train_size (length daily)" using assms by (rule train_size_pos)
  then have t: "take (train_size (length daily)) (map Features.truncate daily) \<noteq> []"
    using ne by simp
  show ?thesis
    unfolding forecast_intermittent_demand_def Let_def m future_data_Inr[OF ne]
    using t by (simp add: fit_def)
qed

lemma forecast_rows_bounds:
  assumes "r \<in> set (forecast_rows dates preds)"
  shows "\<exists>p lo hi. ForecastRow.yhat r = Some p \<and> ForecastRow.yhat_lower r = Some lo \<and>
           ForecastRow.yhat_upper r = Some hi \<and> 0 \<le> p \<and> lo \<le> p \<and> p \<le> hi"
proof -
  from assms obtain d q where
    r: "r = \<lparr>Series.ds = d, y = None, ForecastRow.yhat = Some (max 0 q),
             ForecastRow.yhat_lower = Some (max 0 (q * (7 / 10))),
             ForecastRow.yhat_upper = Some (max 0 (q * (13 / 10)))\<rparr>"
    by (auto simp: forecast_rows_def)
  have "max 0 (q * (7 / 10)) \<le> max 0 q" by (cases "0 \<le> q") (auto simp: max_def)
  moreover have "max 0 q \<le> max 0 (q * (13 / 10))" by (cases "0 \<le> q") (auto simp: max_def)
  ultimately show ?thesis unfolding r by simp
qed

lemma length_forecast_rows:
  "length (forecast_rows dates preds) = min (length dates) (length preds)"
  by (simp add: forecast_rows_def)

lemma forecast_demand_laundry_rf_Inr:
  assumes "forecast_demand_laundry_rf rf dd n = Inr (data, model, fut)"
  shows "length fut = n"
    and "\<forall>r\<in>set fut. FutureRow.yhat r = model (calendar_features (FutureRow.ds r)) \<and>
           FutureRow.yhat_lower r = FutureRow.yhat r - 15 / 10 \<and>
           FutureRow.yhat_upper r = FutureRow.yhat r + 15 / 10"
  using assms unfolding forecast_demand_laundry_rf_def Let_def
  by (auto split: sum.splits option.splits simp: date_range_periods_def)

lemma forecast_demand_laundry_rf_total:
  assumes "dd \<noteq> []"
  shows "\<exists>data model fut. forecast_demand_laundry_rf rf dd n = Inr (data, model, fut)"
proof -
  have m: "col_max (map Series.ds dd) \<noteq> None" using assms by (cases dd) simp_all
  then show ?thesis
    using assms unfolding forecast_demand_laundry_rf_def Let_def
    by (auto simp: fit_def o_def Series.extend_def split: option.splits)
qed

lemma length_date_range_periods: "length (date_range_periods start n) = n"
  by (simp add: date_range_periods_def)

lemma nth_date_range_periods: "i < n \<Longrightarrow> date_range_periods start n ! i = start + int i"
  by (simp add: date_range_periods_def)

lemma forecast_intermittent_demand_short:
  "length daily \<le> 1 \<Longrightarrow> forecast_intermittent_demand rf daily cust = Inl ValueError"
  by (simp add: forecast_intermittent_demand_def fit_def Let_def train_size_small)

lemma enhanced_features_zero_fill:
  assumes ne: "data \<noteq> []"
  shows "\<exists>rows. prepare_enhanced_data data = Inr rows \<and>
      length rows = nat (Max (set (map OrderRecord.StartDate data)) -
                         Min (set (map OrderRecord.StartDate data)) + 1) \<and>
      (\<forall>r\<in>set rows.
         0 \<le> orders r \<and> 0 \<le> orders_7d_avg r \<and> 0 \<le> orders_28d_avg r \<and>
         0 \<le> lag_1 r \<and> 0 \<le> lag_7 r \<and> 0 \<le> lag_14 r \<and> 0 \<le> lag_28 r \<and>
         (time_idx r < 1 \<longrightarrow> lag_1 r = 0) \<and> (time_idx r < 7 \<longrightarrow> lag_7 r = 0) \<and>
         (time_idx r < 14 \<longrightarrow> lag_14 r = 0) \<and> (time_idx r < 28 \<longrightarrow> lag_28 r = 0))"
proof -
  define mn where "mn = Min (set (map OrderRecord.StartDate data))"
  define mx where "mx = Max (set (map OrderRecord.StartDate data))"
  define cs where "cs = map (\<lambda>d. real (length (group data d))) [mn..mx]"
  note rows = prepare_enhanced_data_rows[OF ne, folded mn_def mx_def, folded cs_def]
  have l: "length [mn..mx] = length cs" by (simp add: cs_def)
  have nn: "0 \<le> cs ! j" if "j < length cs" for j
    using that by (simp add: cs_def)
  have s: "0 \<le> sum_list (drop a (take b cs))" for a b
    by (rule sum_list_nonneg) (auto simp: cs_def dest!: in_set_dropD in_set_takeD)
  have t: "[mn..mx] ! i - mn = int i" if "i < length cs" for i
    using that by (simp add: nth_upto cs_def)
  have "\<forall>r\<in>set (projr (prepare_enhanced_data data)).
         0 \<le> orders r \<and> 0 \<le> orders_7d_avg r \<and> 0 \<le> orders_28d_avg r \<and>
         0 \<le> lag_1 r \<and> 0 \<le> lag_7 r \<and> 0 \<le> lag_14 r \<and> 0 \<le> lag_28 r \<and>
         (time_idx r < 1 \<longrightarrow> lag_1 r = 0) \<and> (time_idx r < 7 \<longrightarrow> lag_7 r = 0) \<and>
         (time_idx r < 14 \<longrightarrow> lag_14 r = 0) \<and> (time_idx r < 28 \<longrightarrow> lag_28 r = 0)"
    unfolding rows l by (auto simp: t nn s)
  moreover have "length (projr (prepare_enhanced_data data)) = nat (mx - mn + 1)"
    unfolding rows by simp
  ultimately show ?thesis
    unfolding mn_def[symmetric] mx_def[symmetric] rows by simp
qed

lemma forecast_intermittent_demand_model:
  assumes "forecast_intermittent_demand rf daily cust = Inr (hist, fc)"
  shows "\<exists>fd.
           future_data daily (holidays_of cust)
             (date_range_periods (Max (set (map DailyRow.ds daily)) + 1) future_days) = Inr fd \<and>
           fc = history_rows hist @
                forecast_rows (date_range_periods (Max (set (map DailyRow.ds daily)) + 1) future_days)
                  (map (rf (zip (take (train_size (length daily)) (map Features.truncate daily))
                                (take (train_size (length daily)) (map orders daily)))) fd)"
proof -
  from forecast_intermittent_demand_Inr(1)[OF assms] have ne: "daily \<noteq> []" by auto
  have m: "col_max (map DailyRow.ds daily) = Some (Max (set (map DailyRow.ds daily)))"
    using ne by (intro col_max_Max) simp
  from assms show ?thesis
    unfolding forecast_intermittent_demand_def Let_def m
    by (auto split: sum.splits if_splits simp: fit_def simp del: set_map)
qed

lemma map_yhat_forecast_rows:
  assumes "length dates = length preds"
  shows "map ForecastRow.yhat (forecast_rows dates preds) = map (\<lambda>p. Some (max 0 p)) preds"
proof -
  have "map ForecastRow.yhat (forecast_rows dates preds) =
        map (\<lambda>p. Some (max 0 p)) (map snd (zip dates preds))"
    by (simp add: forecast_rows_def o_def case_prod_beta)
  then show ?thesis using assms by simp
qed

lemma length_history_rows: "length (history_rows hist) = length hist"
  by (simp add: history_rows_def)

section \<open>Forecast bands\<close>

text \<open>
  Claim C3. Whenever \<^verbatim>\<open>forecast_intermittent_demand\<close> returns, its forecast frame is the
  history followed by 90 forecast rows, and every forecast row has a point prediction
  that is at least zero and lies between its lower and its upper bound. Whenever
  \<^verbatim>\<open>forecast_demand_laundry_rf\<close> returns, it has one row per requested day and in every
  row the lower bound is at most the point prediction, which is at most the upper bound.
  Both hold for every fitted model.
\<close>

theorem forecast_bounds:
  "(forecast_intermittent_demand rf daily cust = Inr (hist, fc) \<longrightarrow>
      (\<exists>F. fc = history_rows hist @ F \<and> length F = 90 \<and>
         (\<forall>r\<in>set F. \<exists>p lo hi.
             ForecastRow.yhat r = Some p \<and> ForecastRow.yhat_lower r = Some lo \<and>
             ForecastRow.yhat_upper r = Some hi \<and> 0 \<le> p \<and> lo \<le> p \<and> p \<le> hi))) \<and>
   (forecast_demand_laundry_rf rf' dd n = Inr (data, model, fut) \<longrightarrow>
      length fut = n \<and>
      (\<forall>r\<in>set fut. FutureRow.yhat_lower r \<le> FutureRow.yhat r \<and>
                    FutureRow.yhat r \<le> FutureRow.yhat_upper r))"
proof (intro conjI impI)
  assume a: "forecast_intermittent_demand rf daily cust = Inr (hist, fc)"
  let ?dates = "date_range_periods (Max (set (map DailyRow.ds daily)) + 1) future_days"
  from forecast_intermittent_demand_Inr(3)[OF a] obtain fd model where
    fd: "future_data daily (holidays_of cust) ?dates = Inr fd" and
    fc: "fc = history_rows hist @ forecast_rows ?dates (map model fd)"
    by blast
  from forecast_intermittent_demand_Inr(1)[OF a] have ne: "daily \<noteq> []" by auto
  have "length fd = 90"
    using future_data_rows(1)[OF ne fd] by (simp add: length_date_range_periods future_days_def)
  then have "length (forecast_rows ?dates (map model fd)) = 90"
    by (simp add: length_forecast_rows length_date_range_periods future_days_def)
  with fc forecast_rows_bounds
  show "\<exists>F. fc = history_rows hist @ F \<and> length F = 90 \<and>
         (\<forall>r\<in>set F. \<exists>p lo hi.
             ForecastRow.yhat r = Some p \<and> ForecastRow.yhat_lower r = Some lo \<and>
             ForecastRow.yhat_upper r = Some hi \<and> 0 \<le> p \<and> lo \<le> p \<and> p \<le> hi)"
    by blast
next
  assume b: "forecast_demand_laundry_rf rf' dd n = Inr (data, model, fut)"
  show "length fut = n" by (rule forecast_demand_laundry_rf_Inr(1)[OF b])
  show "\<forall>r\<in>set fut. FutureRow.yhat_lower r \<le> FutureRow.yhat r \<and>
                    FutureRow.yhat r \<le> FutureRow.yhat_upper r"
    using forecast_demand_laundry_rf_Inr(2)[OF b] by auto
qed

theorem forecast_bounds_witness:
  "(\<exists>hist fc.
      forecast_intermittent_demand (\<lambda>train x. real_of_int (day_of_week x) - 3)
        (replicate 2
          \<lparr>day_of_week = 3, is_weekend = 0, month = 1, day_of_month = 1, time_idx = 0,
           orders_7d_avg = 1, orders_28d_avg = 1, lag_1 = 0, lag_7 = 0, lag_14 = 0,
           lag_28 = 0, is_holiday = 0, DailyRow.ds = 0, orders = 1\<rparr>) [] = Inr (hist, fc) \<and>
      (\<exists>F. fc = history_rows hist @ F \<and> length F = 90 \<and>
         (\<forall>r\<in>set F. \<exists>p lo hi.
             ForecastRow.yhat r = Some p \<and> ForecastRow.yhat_lower r = Some lo \<and>
             ForecastRow.yhat_upper r = Some hi \<and> 0 \<le> p \<and> lo \<le> p \<and> p \<le> hi))) \<and>
   (\<exists>data model fut.
      forecast_demand_laundry_rf (\<lambda>train x. 2) [\<lparr>Series.ds = 0, y = 3\<rparr>] 7 =
        Inr (data, model, fut) \<and>
      length fut = 7 \<and>
      (\<forall>r\<in>set fut. FutureRow.yhat_lower r \<le> FutureRow.yhat r \<and>
                    FutureRow.yhat r \<le> FutureRow.yhat_upper r))"
proof (rule conjI)
  let ?rf = "\<lambda>(train :: (real Features \<times> real) list) x. real_of_int (day_of_week x) - 3"
  let ?daily = "replicate 2
          \<lparr>day_of_week = 3, is_weekend = 0, month = 1, day_of_month = 1, time_idx = 0,
           orders_7d_avg = 1, orders_28d_avg = 1, lag_1 = 0, lag_7 = 0, lag_14 = 0,
           lag_28 = 0, is_holiday = 0, DailyRow.ds = 0, orders = (1::real)\<rparr>"
  have "2 \<le> length ?daily" by simp
  from forecast_intermittent_demand_total[OF this, of ?rf "[]"] obtain hist fc where
    a: "forecast_intermittent_demand ?rf ?daily [] = Inr (hist, fc)" by blast
  from forecast_bounds[of ?rf ?daily "[]" hist fc, THEN conjunct1, rule_format, OF a] a
  show "\<exists>hist fc.
      forecast_intermittent_demand ?rf ?daily [] = Inr (hist, fc) \<and>
      (\<exists>F. fc = history_rows hist @ F \<and> length F = 90 \<and>
         (\<forall>r\<in>set F. \<exists>p lo hi.
             ForecastRow.yhat r = Some p \<and> ForecastRow.yhat_lower r = Some lo \<and>
             ForecastRow.yhat_upper r = Some hi \<and> 0 \<le> p \<and> lo \<le> p \<and> p \<le> hi))"
    by blast
next
  let ?rf = "\<lambda>(train :: ((int \<times> int \<times> int) \<times> real) list) (x :: int \<times> int \<times> int). (2::real)"
  let ?dd = "[\<lparr>Series.ds = 0, y = (3::int)\<rparr>]"
  have "?dd \<noteq> []" by simp
  from forecast_demand_laundry_rf_total[OF this, of ?rf 7] obtain data model fut where
    b: "forecast_demand_laundry_rf ?rf ?dd 7 = Inr (data, model, fut)" by blast
  from forecast_bounds[of _ _ _ _ _ ?rf ?dd 7 data model fut, THEN conjunct2, rule_format, OF b] b
  show "\<exists>data model fut.
      forecast_demand_laundry_rf ?rf ?dd 7 = Inr (data, model, fut) \<and>
      length fut = 7 \<and>
      (\<forall>r\<in>set fut. FutureRow.yhat_lower r \<le> FutureRow.yhat r \<and>
                    FutureRow.yhat r \<le> FutureRow.yhat_upper r)"
    by blast
qed

section \<open>Lag features of the forecast horizon\<close>

text \<open>
  Claim C6. Whenever \<^verbatim>\<open>forecast_intermittent_demand\<close> returns, its forecast frame is
  the history followed by the forecast rows of the predictions that the model fitted on
  the first \<^verbatim>\<open>train_size\<close> rows makes on 90 feature rows, one per day after the last
  date of the series. All 90 feature rows carry the same lag-1, lag-7, lag-14, lag-28 and
  rolling-mean values: the last cells of the input series (the cell 7, 14 or 28 rows from
  the end, or zero when the series is shorter). The calendar features, the time index
  and the holiday flag of row \<open>i\<close> are those of the \<open>i\<close>-th day after the last date of
  the series. This holds for every learner, so no prediction is fed back into a later
  feature row.
\<close>

theorem stale_lag_features:
  assumes "forecast_intermittent_demand rf daily cust = Inr (hist, fc)"
  shows "\<exists>fd.
      fc = history_rows hist @
           forecast_rows (date_range_periods (Max (set (map DailyRow.ds daily)) + 1) future_days)
             (map (rf (zip (take (train_size (length daily)) (map Features.truncate daily))
                           (take (train_size (length daily)) (map orders daily)))) fd) \<and>
      length fd = 90 \<and>
      (\<forall>f\<in>set fd.
         lag_1 f = orders (last daily) \<and>
         lag_7 f = (if 7 \<le> length daily then orders (daily ! (length daily - 7)) else 0) \<and>
         lag_14 f = (if 14 \<le> length daily then orders (daily ! (length daily - 14)) else 0) \<and>
         lag_28 f = (if 28 \<le> length daily then orders (daily ! (length daily - 28)) else 0) \<and>
         orders_7d_avg f = orders_7d_avg (last daily) \<and>
         orders_28d_avg f = orders_28d_avg (last daily)) \<and>
      (\<forall>i<90.
         day_of_week (fd ! i) = weekday (Max (set (map DailyRow.ds daily)) + 1 + int i) \<and>
         is_weekend (fd ! i) = isin (weekday (Max (set (map DailyRow.ds daily)) + 1 + int i)) [5, 6] \<and>
         month (fd ! i) = dt_month (Max (set (map DailyRow.ds daily)) + 1 + int i) \<and>
         day_of_month (fd ! i) = dt_day (Max (set (map DailyRow.ds daily)) + 1 + int i) \<and>
         time_idx (fd ! i) =
           Max (set (map DailyRow.ds daily)) + 1 + int i - Min (set (map DailyRow.ds daily)) \<and>
         is_holiday (fd ! i) =
           isin (Max (set (map DailyRow.ds daily)) + 1 + int i) (holidays_of cust))"
proof -
  let ?start = "Max (set (map DailyRow.ds daily)) + 1"
  let ?dates = "date_range_periods ?start future_days"
  let ?model = "rf (zip (take (train_size (length daily)) (map Features.truncate daily))
                        (take (train_size (length daily)) (map orders daily)))"
  from forecast_intermittent_demand_model[OF assms] obtain fd where
    fd: "future_data daily (holidays_of cust) ?dates = Inr fd" and
    fc: "fc = history_rows hist @ forecast_rows ?dates (map ?model fd)"
    by blast
  from forecast_intermittent_demand_Inr(1)[OF assms] have ne: "daily \<noteq> []" by auto
  have len: "length fd = 90"
    using future_data_rows(1)[OF ne fd] by (simp add: length_date_range_periods future_days_def)
  have lags: "\<forall>f\<in>set fd.
         lag_1 f = orders (last daily) \<and>
         lag_7 f = (if 7 \<le> length daily then orders (daily ! (length daily - 7)) else 0) \<and>
         lag_14 f = (if 14 \<le> length daily then orders (daily ! (length daily - 14)) else 0) \<and>
         lag_28 f = (if 28 \<le> length daily then orders (daily ! (length daily - 28)) else 0) \<and>
         orders_7d_avg f = orders_7d_avg (last daily) \<and>
         orders_28d_avg f = orders_28d_avg (last daily)"
  proof
    fix f assume "f \<in> set fd"
    from future_data_rows(3)[OF ne fd this] obtain d where
      "future_features daily (holidays_of cust) d = Inr f" by blast
    then have "f = projr (future_features daily (holidays_of cust) d)" by simp
    then show "lag_1 f = orders (last daily) \<and>
         lag_7 f = (if 7 \<le> length daily then orders (daily ! (length daily - 7)) else 0) \<and>
         lag_14 f = (if 14 \<le> length daily then orders (daily ! (length daily - 14)) else 0) \<and>
         lag_28 f = (if 28 \<le> length daily then orders (daily ! (length daily - 28)) else 0) \<and>
         orders_7d_avg f = orders_7d_avg (last daily) \<and>
         orders_28d_avg f = orders_28d_avg (last daily)"
      unfolding future_features_Inr[OF ne] by simp
  qed
  have cal: "\<forall>i<90.
         day_of_week (fd ! i) = weekday (?start + int i) \<and>
         is_weekend (fd ! i) = isin (weekday (?start + int i)) [5, 6] \<and>
         month (fd ! i) = dt_month (?start + int i) \<and>
         day_of_month (fd ! i) = dt_day (?start + int i) \<and>
         time_idx (fd ! i) = ?start + int i - Min (set (map DailyRow.ds daily)) \<and>
         is_holiday (fd ! i) = isin (?start + int i) (holidays_of cust)"
  proof (intro allI impI)
    fix i :: nat assume i: "i < 90"
    then have "i < length ?dates" by (simp add: length_date_range_periods future_days_def)
    from future_data_rows(2)[OF ne fd this]
    have "future_features daily (holidays_of cust) (?start + int i) = Inr (fd ! i)"
      using i by (simp add: nth_date_range_periods future_days_def)
    then have "fd ! i = projr (future_features daily (holidays_of cust) (?start + int i))" by simp
    then show "day_of_week (fd ! i) = weekday (?start + int i) \<and>
         is_weekend (fd ! i) = isin (weekday (?start + int i)) [5, 6] \<and>
         month (fd ! i) = dt_month (?start + int i) \<and>
         day_of_month (fd ! i) = dt_day (?start + int i) \<and>
         time_idx (fd ! i) = ?start + int i - Min (set (map DailyRow.ds daily)) \<and>
         is_holiday (fd ! i) = isin (?start + int i) (holidays_of cust)"
      unfolding future_features_Inr[OF ne] by simp
  qed
  from fc len lags cal show ?thesis by blast
qed

text \<open>A series of two days with 2 orders and then 1 order, and a learner whose model
  returns the lag-1 feature of the row it is given: all 90 predictions are 1, the last
  order count of the series.\<close>

theorem stale_lag_features_witness:
  "\<exists>daily hist fc.
     daily =
       [\<lparr>day_of_week = 3, is_weekend = 0, month = 1, day_of_month = 1, time_idx = 0,
         orders_7d_avg = 2, orders_28d_avg = 2, lag_1 = 0, lag_7 = 0, lag_14 = 0,
         lag_28 = 0, is_holiday = 0, DailyRow.ds = 0, orders = 2\<rparr>,
        \<lparr>day_of_week = 4, is_weekend = 0, month = 1, day_of_month = 2, time_idx = 1,
         orders_7d_avg = 3 / 2, orders_28d_avg = 3 / 2, lag_1 = 2, lag_7 = 0, lag_14 = 0,
         lag_28 = 0, is_holiday = 0, DailyRow.ds = 1, orders = 1\<rparr>] \<and>
     forecast_intermittent_demand (\<lambda>train x. lag_1 x) daily [] = Inr (hist, fc) \<and>
     length fc = 92 \<and>
     map ForecastRow.yhat (drop 2 fc) = replicate 90 (Some 1)"
proof -
  define daily :: "real DailyRow list" where "daily =
       [\<lparr>day_of_week = 3, is_weekend = 0, month = 1, day_of_month = 1, time_idx = 0,
         orders_7d_avg = 2, orders_28d_avg = 2, lag_1 = 0, lag_7 = 0, lag_14 = 0,
         lag_28 = 0, is_holiday = 0, DailyRow.ds = 0, orders = 2\<rparr>,
        \<lparr>day_of_week = 4, is_weekend = 0, month = 1, day_of_month = 2, time_idx = 1,
         orders_7d_avg = 3 / 2, orders_28d_avg = 3 / 2, lag_1 = 2, lag_7 = 0, lag_14 = 0,
         lag_28 = 0, is_holiday = 0, DailyRow.ds = 1, orders = 1\<rparr>]"
  let ?dates = "date_range_periods (Max (set (map DailyRow.ds daily)) + 1) future_days"
  have "2 \<le> length daily" by (simp add: daily_def)
  from forecast_intermittent_demand_total[OF this] obtain hist fc where
    a: "forecast_intermittent_demand (\<lambda>train x. lag_1 x) daily [] = Inr (hist, fc)" by blast
  from stale_lag_features[OF a] obtain fd :: "real Features list" where
    fc: "fc = history_rows hist @ forecast_rows ?dates (map lag_1 fd)" and
    len: "length fd = 90" and
    lags: "\<forall>f\<in>set fd. lag_1 f = orders (last daily)"
    by blast
  have "orders (last daily) = 1" by (simp add: daily_def)
  with lags have "map lag_1 fd = map (\<lambda>f. 1) fd" by (intro map_cong) simp_all
  then have preds: "map lag_1 fd = replicate 90 1" by (simp add: map_replicate_const len)
  have hist: "length (history_rows hist) = 2"
    using forecast_intermittent_demand_Inr(2)[OF a]
    by (simp add: length_history_rows daily_def)
  have dates: "length ?dates = length (replicate 90 (1::real))"
    by (simp add: length_date_range_periods future_days_def)
  have "length fc = 92"
    unfolding fc preds using hist dates by (simp add: length_forecast_rows)
  moreover have "map ForecastRow.yhat (drop 2 fc) = replicate 90 (Some 1)"
  proof -
    have y: "map ForecastRow.yhat (forecast_rows ?dates (replicate 90 1)) = replicate 90 (Some 1)"
      unfolding map_yhat_forecast_rows[OF dates] by simp
    have "drop 2 fc = forecast_rows ?dates (replicate 90 1)"
      unfolding fc preds using hist by simp
    then show ?thesis unfolding y[symmetric] by (rule arg_cong)
  qed
  ultimately show ?thesis using a daily_def by blast
qed

section \<open>Short histories\<close>

text \<open>
  Claim C7. The feature part of the claim is \<open>enhanced_features_zero_fill\<close> above: no
  row is dropped, every count, rolling mean and lag is non-negative, and a lag of offset
  \<open>k\<close> is zero on the rows whose time index is below \<open>k\<close>. The forecast does not follow
  for the shortest history. A customer whose orders all fall on one date has a daily
  series of one row; \<^verbatim>\<open>int(len(daily_data) * 0.8)\<close> is then 0, the training set is
  empty and \<^verbatim>\<open>model.fit\<close> raises ValueError, for every learner.
\<close>

theorem single_day_history_fails:
  "show_forecast_analysis rf
     [\<lparr>TenantID = ''T1'', LaundryID = ''L1'', OrderRecord.StartDate = 0, Item = ''Shirt'',
       Service = ''Wash'', Water_Litres = 40, Electricity_kWh = 2, IsHoliday = 0, IsWeekend = 0\<rparr>,
      \<lparr>TenantID = ''T1'', LaundryID = ''L1'', OrderRecord.StartDate = 0, Item = ''Towel'',
       Service = ''Dry'', Water_Litres = 10, Electricity_kWh = 3, IsHoliday = 0, IsWeekend = 0\<rparr>]
   = Inl ValueError"
proof -
  let ?d = "[\<lparr>TenantID = ''T1'', LaundryID = ''L1'', OrderRecord.StartDate = 0, Item = ''Shirt'',
       Service = ''Wash'', Water_Litres = 40, Electricity_kWh = 2, IsHoliday = 0, IsWeekend = 0\<rparr>,
      \<lparr>TenantID = ''T1'', LaundryID = ''L1'', OrderRecord.StartDate = 0, Item = ''Towel'',
       Service = ''Dry'', Water_Litres = 10, Electricity_kWh = 3, IsHoliday = 0, IsWeekend = 0\<rparr>]"
  have "?d \<noteq> []" by simp
  from enhanced_features_zero_fill[OF this] obtain rows where
    r: "prepare_enhanced_data ?d = Inr rows" and l: "length rows = 1"
    by auto
  from l have "forecast_intermittent_demand rf rows ?d = Inl ValueError"
    by (intro forecast_intermittent_demand_short) simp
  with r show ?thesis by (simp add: show_forecast_analysis_def)
qed

section \<open>Lemmas on the facility analyses and the entry points\<close>

lemma groupby_keys_empty_iff: "groupby_keys ks = [] \<longleftrightarrow> ks = []"
proof -
  have "set (groupby_keys ks) = set ks" by (simp add: groupby_keys_def)
  then show ?thesis by (metis set_empty)
qed


lemma filter_laundry_empty:
  "(\<forall>r\<in>set df. LaundryID r \<noteq> lid) \<Longrightarrow> filter (\<lambda>r. LaundryID r = lid) df = []"
  by (simp add: filter_empty_conv)

lemma prepare_laundry_data_empty_iff:
  "prepare_laundry_data df lid = [] \<longleftrightarrow> (\<forall>r\<in>set df. LaundryID r \<noteq> lid)"
  by (simp add: prepare_laundry_data_def groupby_size_def groupby_keys_empty_iff Let_def
      filter_empty_conv)

lemma laundry_resource_analysis_empty:
  assumes "\<forall>r\<in>set df. LaundryID r \<noteq> lid"
  shows "laundry_resource_analysis lr det df lid = Inl ValueError"
  unfolding laundry_resource_analysis_def filter_laundry_empty[OF assms]
  by (simp add: groupby_keys_def fit_def)

lemma anomaly_label_iff: "anomaly_label a = Some ''Anomaly'' \<longleftrightarrow> a = - 1"
  by (simp add: anomaly_label_def)

lemma alert_text_neq: "alert_text \<noteq> normal_text"
  by (simp add: alert_text_def normal_text_def)

lemma laundry_resource_analysis_Inr:
  assumes "laundry_resource_analysis lr det df lid = Inr rows"
  shows "map ResourceDayRow.StartDate rows =
           groupby_keys (map OrderRecord.StartDate (filter (\<lambda>r. LaundryID r = lid) df))"
    and "\<forall>r\<in>set rows.
           OrderCount r = count (map (\<lambda>x. Some (TenantID x))
             (group (filter (\<lambda>x. LaundryID x = lid) df) (ResourceDayRow.StartDate r))) \<and>
           WaterConsumption r = sum_list (map Water_Litres
             (group (filter (\<lambda>x. LaundryID x = lid) df) (ResourceDayRow.StartDate r))) \<and>
           ElectricityConsumption r = sum_list (map Electricity_kWh
             (group (filter (\<lambda>x. LaundryID x = lid) df) (ResourceDayRow.StartDate r))) \<and>
           AnomalyLabel r = anomaly_label (Anomaly r) \<and>
           Alert r = (if Anomaly r = - 1 \<and> OrderCount r < 5 then alert_text else normal_text)"
    and "rows \<noteq> []"
proof -
  let ?L = "filter (\<lambda>r. LaundryID r = lid) df"
  let ?keys = "groupby_keys (map OrderRecord.StartDate ?L)"
  have ne: "?keys \<noteq> []"
  proof
    assume "?keys = []"
    with assms show False
      by (simp add: laundry_resource_analysis_def fit_def Let_def)
  qed
  show "map ResourceDayRow.StartDate rows = ?keys"
    using assms map_nth[of ?keys]
    unfolding laundry_resource_analysis_def Let_def
    by (auto split: sum.splits simp: ResourceDayRow.extend_def o_def)
  show "\<forall>r\<in>set rows.
           OrderCount r = count (map (\<lambda>x. Some (TenantID x)) (group ?L (ResourceDayRow.StartDate r))) \<and>
           WaterConsumption r = sum_list (map Water_Litres (group ?L (ResourceDayRow.StartDate r))) \<and>
           ElectricityConsumption r = sum_list (map Electricity_kWh (group ?L (ResourceDayRow.StartDate r))) \<and>
           AnomalyLabel r = anomaly_label (Anomaly r) \<and>
           Alert r = (if Anomaly r = - 1 \<and> OrderCount r < 5 then alert_text else normal_text)"
    using assms
    unfolding laundry_resource_analysis_def Let_def
    by (auto split: sum.splits simp: check_alerts_def ResourceDayRow.extend_def)
  show "rows \<noteq> []"
    using assms ne
    unfolding laundry_resource_analysis_def Let_def
    by (auto split: sum.splits)
qed

lemma laundry_resource_analysis_total:
  assumes "\<exists>r\<in>set df. LaundryID r = lid" and "\<And>s. length (det s) = length s"
  shows "\<exists>rows. laundry_resource_analysis lr det df lid = Inr rows"
proof -
  let ?L = "filter (\<lambda>r. LaundryID r = lid) df"
  from assms(1) have "?L \<noteq> []" by (auto simp: filter_empty_conv)
  then have "groupby_keys (map OrderRecord.StartDate ?L) \<noteq> []"
    by (simp add: groupby_keys_empty_iff)
  then show ?thesis
    unfolding laundry_resource_analysis_def Let_def
    by (simp add: fit_def fit_predict_def assms(2))
qed


lemma show_peak_forecast_Page:
  assumes "show_peak_forecast rf df lid t = Inr (Page (fc, peak))"
  shows "length fc = 30" and "peak = filter (\<lambda>r. real_of_int t < FutureRow.yhat r) fc"
  using assms forecast_demand_laundry_rf_Inr(1)
  unfolding show_peak_forecast_def Let_def
  by (auto split: if_splits sum.splits)

lemma show_peak_alerts_Page:
  assumes "show_peak_alerts rf df lid t = Inr (Page peak)"
  shows "\<exists>fc. show_peak_forecast rf df lid t = Inr (Page (fc, peak))"
  using assms unfolding show_peak_alerts_def show_peak_forecast_def Let_def
  by (auto split: if_splits sum.splits)

lemma detect_low_demand_days_Some:
  assumes "detect_low_demand_days rf df lid t = Inr (Some (fc, low))"
  shows "length fc = 7" and "low = filter (\<lambda>r. FutureRow.yhat r < real_of_int t) fc"
  using assms forecast_demand_laundry_rf_Inr(1)
  unfolding detect_low_demand_days_def Let_def
  by (auto split: if_splits sum.splits)

lemma laundry_entry_points_total:
  assumes "\<exists>r\<in>set df. LaundryID r = lid"
  shows "\<exists>fc peak. show_peak_forecast rf df lid t = Inr (Page (fc, peak))"
    and "\<exists>peak. show_peak_alerts rf df lid t = Inr (Page peak)"
    and "\<exists>fc low. detect_low_demand_days rf df lid t = Inr (Some (fc, low))"
proof -
  have ne: "prepare_laundry_data df lid \<noteq> []"
    using assms by (simp add: prepare_laundry_data_empty_iff)
  from forecast_demand_laundry_rf_total[OF ne, of rf 30] obtain d m f where
    a: "forecast_demand_laundry_rf rf (prepare_laundry_data df lid) 30 = Inr (d, m, f)" by blast
  from forecast_demand_laundry_rf_total[OF ne, of rf 7] obtain d' m' f' where
    b: "forecast_demand_laundry_rf rf (prepare_laundry_data df lid) 7 = Inr (d', m', f')" by blast
  show "\<exists>fc peak. show_peak_forecast rf df lid t = Inr (Page (fc, peak))"
    using ne a by (simp add: show_peak_forecast_def)
  show "\<exists>peak. show_peak_alerts rf df lid t = Inr (Page peak)"
    using ne a by (simp add: show_peak_alerts_def)
  show "\<exists>fc low. detect_low_demand_days rf df lid t = Inr (Some (fc, low))"
    using ne b by (simp add: detect_low_demand_days_def)
qed

lemma unknown_identifier_no_data:
  "tid \<noteq> [] \<Longrightarrow> \<forall>r\<in>set df. TenantID r \<noteq> tid \<Longrightarrow>
     customer_section rf' now df tid sub = Inr NoData"
  "\<forall>r\<in>set df. LaundryID r \<noteq> lid \<Longrightarrow> show_peak_forecast rf df lid t = Inr NoData"
  "\<forall>r\<in>set df. LaundryID r \<noteq> lid \<Longrightarrow> show_peak_alerts rf df lid t = Inr NoData"
  "\<forall>r\<in>set df. LaundryID r \<noteq> lid \<Longrightarrow> detect_low_demand_days rf df lid t = Inr None"
  by (simp_all add: customer_section_def show_peak_forecast_def show_peak_alerts_def
      detect_low_demand_days_def prepare_laundry_data_empty_iff filter_empty_conv)

lemma unknown_laundry_resource_raises:
  "\<forall>r\<in>set df. LaundryID r \<noteq> lid \<Longrightarrow>
     show_resource_analysis lr det rf df lid t = Inl ValueError"
  by (simp add: show_resource_analysis_def laundry_resource_analysis_empty)



section \<open>Unknown identifiers\<close>

text \<open>
  Claim C2. An identifier without rows is answered with the no-data box by
  \<^verbatim>\<open>customer_section\<close>, \<^verbatim>\<open>show_peak_forecast\<close> and \<^verbatim>\<open>show_peak_alerts\<close>, and with
  \<^verbatim>\<open>(None, None)\<close> by \<^verbatim>\<open>detect_low_demand_days\<close> (lemma \<open>unknown_identifier_no_data\<close>);
  each of them tests the empty selection before any model is fitted. The resource page
  of a facility does not: \<^verbatim>\<open>show_resource_analysis\<close> calls
  \<^verbatim>\<open>laundry_resource_analysis\<close> first, which fits the linear regression on the empty
  daily table, so the ValueError of \<^verbatim>\<open>fit\<close> escapes and the test
  \<^verbatim>\<open>daily_usage.empty\<close> after the call is never reached (lemma
  \<open>unknown_laundry_resource_raises\<close>). The instance below has one order of facility L1
  and asks for facility L999.
\<close>

theorem unknown_laundry_resource_analysis_raises:
  "show_resource_analysis lr det rf
     [\<lparr>TenantID = ''T1'', LaundryID = ''L1'', OrderRecord.StartDate = 0, Item = ''Shirt'',
       Service = ''Wash'', Water_Litres = 40, Electricity_kWh = 2, IsHoliday = 0, IsWeekend = 0\<rparr>]
     ''L999'' 3 = Inl ValueError"
  by (rule unknown_laundry_resource_raises) simp

section \<open>Resource alerts\<close>

text \<open>
  Claim C4. Whenever \<^verbatim>\<open>laundry_resource_analysis\<close> returns, its table has one row per
  order date of the facility, and in every row the alert column holds the alert text
  exactly when the anomaly label is \<open>Anomaly\<close> and the order count is below 5, and the
  normal text exactly when it is not. This holds for every regression and every
  detector.
\<close>

theorem alert_iff_anomaly_and_low_count:
  assumes "laundry_resource_analysis lr det df lid = Inr rows"
  shows "map ResourceDayRow.StartDate rows =
           groupby_keys (map OrderRecord.StartDate (filter (\<lambda>r. LaundryID r = lid) df)) \<and>
         (\<forall>r\<in>set rows.
            (Alert r = alert_text \<longleftrightarrow> AnomalyLabel r = Some ''Anomaly'' \<and> OrderCount r < 5) \<and>
            (Alert r = normal_text \<longleftrightarrow> \<not> (AnomalyLabel r = Some ''Anomaly'' \<and> OrderCount r < 5)))"
  using laundry_resource_analysis_Inr(1,2)[OF assms] alert_text_neq
  by (auto simp: anomaly_label_iff)

theorem alert_iff_anomaly_and_low_count_witness:
  "\<exists>df rows.
     df = [\<lparr>TenantID = ''T1'', LaundryID = ''L1'', OrderRecord.StartDate = 0, Item = ''Shirt'',
            Service = ''Wash'', Water_Litres = 400, Electricity_kWh = 2, IsHoliday = 0, IsWeekend = 0\<rparr>,
           \<lparr>TenantID = ''T2'', LaundryID = ''L1'', OrderRecord.StartDate = 1, Item = ''Towel'',
            Service = ''Dry'', Water_Litres = 10, Electricity_kWh = 3, IsHoliday = 0, IsWeekend = 0\<rparr>] \<and>
     laundry_resource_analysis (\<lambda>train x. 40 * x)
       (\<lambda>samples. map (\<lambda>(w, e). if 100 < w then - 1 else 1) samples) df ''L1'' = Inr rows \<and>
     map ResourceDayRow.StartDate rows =
       groupby_keys (map OrderRecord.StartDate (filter (\<lambda>r. LaundryID r = ''L1'') df)) \<and>
     (\<forall>r\<in>set rows.
        (Alert r = alert_text \<longleftrightarrow> AnomalyLabel r = Some ''Anomaly'' \<and> OrderCount r < 5) \<and>
        (Alert r = normal_text \<longleftrightarrow> \<not> (AnomalyLabel r = Some ''Anomaly'' \<and> OrderCount r < 5)))"
proof -
  define df where "df =
          [\<lparr>TenantID = ''T1'', LaundryID = ''L1'', OrderRecord.StartDate = 0, Item = ''Shirt'',
            Service = ''Wash'', Water_Litres = 400, Electricity_kWh = 2, IsHoliday = 0, IsWeekend = 0\<rparr>,
           \<lparr>TenantID = ''T2'', LaundryID = ''L1'', OrderRecord.StartDate = 1, Item = ''Towel'',
            Service = ''Dry'', Water_Litres = 10, Electricity_kWh = 3, IsHoliday = 0, IsWeekend = 0\<rparr>]"
  have "\<exists>r\<in>set df. LaundryID r = ''L1''" by (simp add: df_def)
  from laundry_resource_analysis_total[OF this, of "\<lambda>samples. map (\<lambda>(w, e). if 100 < w then - 1 else 1) samples" "\<lambda>train x. 40 * x"]
  obtain rows where
    a: "laundry_resource_analysis (\<lambda>train x. 40 * x)
       (\<lambda>samples. map (\<lambda>(w, e). if 100 < w then - 1 else 1) samples) df ''L1'' = Inr rows"
    by auto
  from alert_iff_anomaly_and_low_count[OF a] a df_def show ?thesis by blast
qed

section \<open>Order counts of the resource table\<close>



section \<open>Peak and low-demand days\<close>

text \<open>
  Claim C5 (as amended). The peak days of \<^verbatim>\<open>show_peak_forecast\<close> and
  \<^verbatim>\<open>show_peak_alerts\<close> are exactly the rows of the 30-day forecast whose prediction is
  strictly above the threshold, and the low-demand days of \<^verbatim>\<open>detect_low_demand_days\<close>
  are exactly the rows of the 7-day forecast whose prediction is strictly below the
  threshold; both are plain comparisons per row. A row whose prediction equals the
  threshold is in neither.
\<close>

theorem threshold_sets:
  "(show_peak_forecast rf df lid t = Inr (Page (fc, peak)) \<longrightarrow>
      length fc = 30 \<and>
      (\<forall>r. r \<in> set peak \<longleftrightarrow> r \<in> set fc \<and> real_of_int t < FutureRow.yhat r)) \<and>
   (show_peak_alerts rf df lid t = Inr (Page peak') \<longrightarrow>
      (\<exists>fc'. show_peak_forecast rf df lid t = Inr (Page (fc', peak')))) \<and>
   (detect_low_demand_days rf df lid t' = Inr (Some (fc7, low)) \<longrightarrow>
      length fc7 = 7 \<and>
      (\<forall>r. r \<in> set low \<longleftrightarrow> r \<in> set fc7 \<and> FutureRow.yhat r < real_of_int t'))"
proof (intro conjI impI)
  assume a: "show_peak_forecast rf df lid t = Inr (Page (fc, peak))"
  show "length fc = 30" by (rule show_peak_forecast_Page(1)[OF a])
  show "\<forall>r. r \<in> set peak \<longleftrightarrow> r \<in> set fc \<and> real_of_int t < FutureRow.yhat r"
    unfolding show_peak_forecast_Page(2)[OF a] by auto
next
  assume "show_peak_alerts rf df lid t = Inr (Page peak')"
  then show "\<exists>fc'. show_peak_forecast rf df lid t = Inr (Page (fc', peak'))"
    by (rule show_peak_alerts_Page)
next
  assume a: "detect_low_demand_days rf df lid t' = Inr (Some (fc7, low))"
  show "length fc7 = 7" by (rule detect_low_demand_days_Some(1)[OF a])
  show "\<forall>r. r \<in> set low \<longleftrightarrow> r \<in> set fc7 \<and> FutureRow.yhat r < real_of_int t'"
    unfolding detect_low_demand_days_Some(2)[OF a] by auto
qed

text \<open>A model that predicts 5 for every day, against the threshold 5: all 30 forecast
  rows are at the threshold and none is a peak day.\<close>

theorem threshold_counterexample:
  "map_sum id (\<lambda>p. case p of Page (fc, peak) \<Rightarrow> (map FutureRow.yhat fc, peak) | _ \<Rightarrow> ([], []))
     (show_peak_forecast (\<lambda>train x. 5)
       [\<lparr>TenantID = ''T1'', LaundryID = ''L1'', OrderRecord.StartDate = 0, Item = ''Shirt'',
         Service = ''Wash'', Water_Litres = 40, Electricity_kWh = 2, IsHoliday = 0, IsWeekend = 0\<rparr>]
       ''L1'' 5)
   = Inr (replicate 30 5, [])"
  by (simp add: show_peak_forecast_def prepare_laundry_data_def groupby_size_def groupby_keys_def
      group_def forecast_demand_laundry_rf_def fit_def Let_def date_range_periods_def
      filter_map o_def map_replicate_const Series.extend_def)

theorem threshold_sets_witness:
  "\<exists>df. df = [\<lparr>TenantID = ''T1'', LaundryID = ''L1'', OrderRecord.StartDate = 0, Item = ''Shirt'',
         Service = ''Wash'', Water_Litres = 40, Electricity_kWh = 2, IsHoliday = 0, IsWeekend = 0\<rparr>] \<and>
     (\<exists>fc peak. show_peak_forecast (\<lambda>train x. real_of_int (fst (snd x))) df ''L1'' 2 = Inr (Page (fc, peak)) \<and>
        length fc = 30 \<and>
        (\<forall>r. r \<in> set peak \<longleftrightarrow> r \<in> set fc \<and> real_of_int 2 < FutureRow.yhat r)) \<and>
     (\<exists>peak' fc'. show_peak_alerts (\<lambda>train x. real_of_int (fst (snd x))) df ''L1'' 2 = Inr (Page peak') \<and>
        show_peak_forecast (\<lambda>train x. real_of_int (fst (snd x))) df ''L1'' 2 = Inr (Page (fc', peak'))) \<and>
     (\<exists>fc7 low. detect_low_demand_days (\<lambda>train x. real_of_int (fst (snd x))) df ''L1'' 3 = Inr (Some (fc7, low)) \<and>
        length fc7 = 7 \<and>
        (\<forall>r. r \<in> set low \<longleftrightarrow> r \<in> set fc7 \<and> FutureRow.yhat r < real_of_int 3))"
proof -
  define df where "df =
      [\<lparr>TenantID = ''T1'', LaundryID = ''L1'', OrderRecord.StartDate = 0, Item = ''Shirt'',
         Service = ''Wash'', Water_Litres = 40, Electricity_kWh = 2, IsHoliday = 0, IsWeekend = 0\<rparr>]"
  define rf :: "(int \<times> int \<times> int) learner" where "rf = (\<lambda>train x. real_of_int (fst (snd x)))"
  have ex: "\<exists>r\<in>set df. LaundryID r = ''L1''" by (simp add: df_def)
  from laundry_entry_points_total(1)[OF ex, of rf 2] obtain fc peak where
    a: "show_peak_forecast rf df ''L1'' 2 = Inr (Page (fc, peak))" by blast
  from laundry_entry_points_total(2)[OF ex, of rf 2] obtain peak' where
    b: "show_peak_alerts rf df ''L1'' 2 = Inr (Page peak')" by blast
  from laundry_entry_points_total(3)[OF ex, of rf 3] obtain fc7 low where
    c: "detect_low_demand_days rf df ''L1'' 3 = Inr (Some (fc7, low))" by blast
  note T = threshold_sets[of rf df "''L1''" 2 fc peak peak' 3 fc7 low]
  from T[THEN conjunct1, rule_format, OF a] a
  have 1: "\<exists>fc peak. show_peak_forecast rf df ''L1'' 2 = Inr (Page (fc, peak)) \<and>
        length fc = 30 \<and>
        (\<forall>r. r \<in> set peak \<longleftrightarrow> r \<in> set fc \<and> real_of_int 2 < FutureRow.yhat r)"
    by blast
  from T[THEN conjunct2, THEN conjunct1, rule_format, OF b] b
  have 2: "\<exists>peak' fc'. show_peak_alerts rf df ''L1'' 2 = Inr (Page peak') \<and>
        show_peak_forecast rf df ''L1'' 2 = Inr (Page (fc', peak'))"
    by blast
  from T[THEN conjunct2, THEN conjunct2, rule_format, OF c] c
  have 3: "\<exists>fc7 low. detect_low_demand_days rf df ''L1'' 3 = Inr (Some (fc7, low)) \<and>
        length fc7 = 7 \<and>
        (\<forall>r. r \<in> set low \<longleftrightarrow> r \<in> set fc7 \<and> FutureRow.yhat r < real_of_int 3)"
    by blast
  from 1 2 3 df_def show ?thesis unfolding rf_def by blast
qed

section \<open>Dependence on the clock\<close>

lemma days_since_eq:
  "data \<noteq> [] \<Longrightarrow> days_since (generate_customer_insights now data) =
     Some ((now - timestamp (Max (set (map OrderRecord.StartDate data)))) div day_us)"
proof -
  assume "data \<noteq> []"
  then have "col_max (map OrderRecord.StartDate data) = Some (Max (set (map OrderRecord.StartDate data)))"
    by (intro col_max_Max) simp
  then show ?thesis
    unfolding generate_customer_insights_def Let_def by simp
qed

lemma days_since_shift:
  "days_since (generate_customer_insights (now + k * day_us) data) =
     map_option (\<lambda>d. d + k) (days_since (generate_customer_insights now data))"
proof -
  have "(now + k * day_us - t) div day_us = (now - t) div day_us + k" for t
  proof -
    have "now + k * day_us - t = (now - t) + k * day_us" by simp
    then show ?thesis by (simp add: day_us_def)
  qed
  then show ?thesis
    unfolding generate_customer_insights_def Let_def
    by (cases "col_max (map OrderRecord.StartDate data)") simp_all
qed

lemma customer_section_clock_free:
  "sub \<noteq> Historical \<Longrightarrow> sub \<noteq> Resources \<Longrightarrow>
     customer_section rf now df tid sub = customer_section rf now' df tid sub"
  by (cases sub) (simp_all add: customer_section_def Let_def)

lemma calculate_future_resource_ds:
  "map Series.ds (calculate_future_resource now fc w e) =
     filter (\<lambda>d. now < timestamp d) (map Series.ds fc)"
  by (simp add: calculate_future_resource_def filter_map o_def ForecastRow.extend_def)

lemma calculate_future_resource_needs:
  "r \<in> set (calculate_future_resource now fc w e) \<Longrightarrow>
     now < timestamp (Series.ds r) \<and>
     Water_Needed r = np_multiply (ForecastRow.yhat r) w \<and>
     Electricity_Needed r = np_multiply (ForecastRow.yhat r) e"
  by (auto simp: calculate_future_resource_def ForecastRow.extend_def)

text \<open>
  Claim C8 (as amended). The analyses are functions of the source table, the selected
  identifier and parameters, and the wall-clock time of the run. The days since the last
  order are the whole days from the last order date to the clock, so a run \<open>k\<close> days
  later reports \<open>k\<close> days more; \<^verbatim>\<open>calculate_future_resource\<close> keeps exactly the forecast
  rows dated after the clock and projects each from its prediction. The average gap
  between orders and the forecast and report pages of \<^verbatim>\<open>customer_section\<close> do not
  depend on the clock.
\<close>

theorem clock_dependence:
  "(data \<noteq> [] \<longrightarrow>
      days_since (generate_customer_insights now data) =
        Some ((now - timestamp (Max (set (map OrderRecord.StartDate data)))) div day_us)) \<and>
   days_since (generate_customer_insights (now + k * day_us) data) =
     map_option (\<lambda>d. d + k) (days_since (generate_customer_insights now data)) \<and>
   avg_days_between (generate_customer_insights now data) =
     avg_days_between (generate_customer_insights now' data) \<and>
   map Series.ds (calculate_future_resource now fc w e) =
     filter (\<lambda>d. now < timestamp d) (map Series.ds fc) \<and>
   (\<forall>r\<in>set (calculate_future_resource now fc w e).
      Water_Needed r = np_multiply (ForecastRow.yhat r) w \<and>
      Electricity_Needed r = np_multiply (ForecastRow.yhat r) e) \<and>
   (sub \<noteq> Historical \<and> sub \<noteq> Resources \<longrightarrow>
      customer_section rf now df tid sub = customer_section rf now' df tid sub)"
proof (intro conjI impI ballI)
  assume "data \<noteq> []"
  then show "days_since (generate_customer_insights now data) =
        Some ((now - timestamp (Max (set (map OrderRecord.StartDate data)))) div day_us)"
    by (rule days_since_eq)
next
  show "days_since (generate_customer_insights (now + k * day_us) data) =
     map_option (\<lambda>d. d + k) (days_since (generate_customer_insights now data))"
    by (rule days_since_shift)
next
  show "avg_days_between (generate_customer_insights now data) =
     avg_days_between (generate_customer_insights now' data)"
    by (simp add: generate_customer_insights_def Let_def)
next
  show "map Series.ds (calculate_future_resource now fc w e) =
     filter (\<lambda>d. now < timestamp d) (map Series.ds fc)"
    by (rule calculate_future_resource_ds)
next
  fix r assume r: "r \<in> set (calculate_future_resource now fc w e)"
  from calculate_future_resource_needs[OF r]
  show "Water_Needed r = np_multiply (ForecastRow.yhat r) w"
    and "Electricity_Needed r = np_multiply (ForecastRow.yhat r) e"
    by simp_all
next
  assume "sub \<noteq> Historical \<and> sub \<noteq> Resources"
  then show "customer_section rf now df tid sub = customer_section rf now' df tid sub"
    using customer_section_clock_free by blast
qed

text \<open>The same order and the same forecast row, analysed at midnight of day 0 and one
  day later: the days since the last order differ, and the forecast row of day 1 is a
  future row in the first run only.\<close>

theorem clock_counterexample:
  "days_since (generate_customer_insights 0
     [\<lparr>TenantID = ''T1'', LaundryID = ''L1'', OrderRecord.StartDate = 0, Item = ''Shirt'',
       Service = ''Wash'', Water_Litres = 40, Electricity_kWh = 2, IsHoliday = 0, IsWeekend = 0\<rparr>])
     = Some 0 \<and>
   days_since (generate_customer_insights 86400000000
     [\<lparr>TenantID = ''T1'', LaundryID = ''L1'', OrderRecord.StartDate = 0, Item = ''Shirt'',
       Service = ''Wash'', Water_Litres = 40, Electricity_kWh = 2, IsHoliday = 0, IsWeekend = 0\<rparr>])
     = Some 1 \<and>
   map Series.ds (calculate_future_resource 0
     [\<lparr>Series.ds = 1, y = None, ForecastRow.yhat = Some 2, yhat_lower = Some (14 / 10),
       yhat_upper = Some (26 / 10)\<rparr>] (Some 40) (Some 2)) = [1] \<and>
   map Series.ds (calculate_future_resource 86400000000
     [\<lparr>Series.ds = 1, y = None, ForecastRow.yhat = Some 2, yhat_lower = Some (14 / 10),
       yhat_upper = Some (26 / 10)\<rparr>] (Some 40) (Some 2)) = []"
  by (simp add: generate_customer_insights_def calculate_future_resource_def timestamp_def
      day_us_def ForecastRow.extend_def)

theorem clock_dependence_witness:
  "\<exists>data. data =
     [\<lparr>TenantID = ''T1'', LaundryID = ''L1'', OrderRecord.StartDate = 3, Item = ''Shirt'',
       Service = ''Wash'', Water_Litres = 40, Electricity_kWh = 2, IsHoliday = 0, IsWeekend = 0\<rparr>] \<and>
     data \<noteq> [] \<and>
     days_since (generate_customer_insights (5 * day_us + 7) data) = Some 2 \<and>
     Forecast \<noteq> Historical \<and> Forecast \<noteq> Resources \<and>
     customer_section (\<lambda>train x. 1) 0 data ''T1'' Forecast =
       customer_section (\<lambda>train x. 1) (5 * day_us + 7) data ''T1'' Forecast"
proof -
  define data where "data =
     [\<lparr>TenantID = ''T1'', LaundryID = ''L1'', OrderRecord.StartDate = 3, Item = ''Shirt'',
       Service = ''Wash'', Water_Litres = 40, Electricity_kWh = 2, IsHoliday = 0, IsWeekend = 0\<rparr>]"
  have ne: "data \<noteq> []" by (simp add: data_def)
  have s: "Forecast \<noteq> Historical \<and> Forecast \<noteq> Resources" by simp
  note C = clock_dependence[of data "5 * day_us + 7" 0 0 "[]" None None Forecast "\<lambda>train x. 1" data "''T1''"]
  from C[THEN conjunct1, THEN mp, OF ne]
  have "days_since (generate_customer_insights (5 * day_us + 7) data) = Some 2"
    by (simp add: data_def timestamp_def day_us_def)
  moreover from C[THEN conjunct2, THEN conjunct2, THEN conjunct2, THEN conjunct2, THEN conjunct2, THEN mp, OF s]
  have "customer_section (\<lambda>train x. 1) 0 data ''T1'' Forecast =
       customer_section (\<lambda>train x. 1) (5 * day_us + 7) data ''T1'' Forecast"
    by simp
  ultimately show ?thesis using ne data_def by blast
qed

section \<open>Inventory figures of the business report\<close>

lemma generate_business_report_Inr:
  assumes "generate_business_report actual forecast = Inr rep"
  shows "col_mean (map ForecastRow.yhat
            (forecast_period_after (col_max (map Series.ds actual)) forecast)) = Some (avg_daily rep)"
    and "col_mean (map ForecastRow.yhat_lower
            (forecast_period_after (col_max (map Series.ds actual)) forecast)) = Some (avg_lower rep)"
    and "col_mean (map ForecastRow.yhat_upper
            (forecast_period_after (col_max (map Series.ds actual)) forecast)) = Some (avg_upper rep)"
    and "min_stock rep = max 1 (py_round (avg_lower rep))"
    and "weekly_stock rep =
           (py_round (avg_daily rep * 7 * (8 / 10)), py_round (avg_daily rep * 7 * (12 / 10)))"
    and "buffer_stock rep = py_round (avg_upper rep * 2)"
  using assms unfolding generate_business_report_def Let_def
  by (auto split: if_splits option.splits)

text \<open>
  Claim C9 (as amended). Whenever \<^verbatim>\<open>generate_business_report\<close> returns, its averages
  are the means of the predictions, lower bounds and upper bounds of the forecast
  period (the rows dated after the last actual date); the minimum daily stock is the
  rounded average lower bound but never less than 1; the weekly range runs from the
  rounded 80 percent to the rounded 120 percent of seven times the average daily
  prediction; the buffer stock is the rounded double of the average upper bound.
  Rounding is Python's \<^verbatim>\<open>round\<close>.
\<close>

theorem inventory_heuristics:
  assumes "generate_business_report actual forecast = Inr rep"
  shows "col_mean (map ForecastRow.yhat
            (forecast_period_after (col_max (map Series.ds actual)) forecast)) = Some (avg_daily rep) \<and>
         col_mean (map ForecastRow.yhat_lower
            (forecast_period_after (col_max (map Series.ds actual)) forecast)) = Some (avg_lower rep) \<and>
         col_mean (map ForecastRow.yhat_upper
            (forecast_period_after (col_max (map Series.ds actual)) forecast)) = Some (avg_upper rep) \<and>
         min_stock rep = max 1 (py_round (avg_lower rep)) \<and>
         1 \<le> min_stock rep \<and>
         (py_round (avg_lower rep) \<le> 0 \<longrightarrow> min_stock rep = 1) \<and>
         weekly_stock rep =
           (py_round (avg_daily rep * 7 * (8 / 10)), py_round (avg_daily rep * 7 * (12 / 10))) \<and>
         buffer_stock rep = py_round (avg_upper rep * 2)"
  using generate_business_report_Inr[OF assms] by simp

text \<open>A forecast period whose average lower bound is 0.14: it rounds to 0 and the
  minimum stock is 1.\<close>

theorem inventory_counterexample:
  "map_sum id (\<lambda>rep. (avg_lower rep, py_round (avg_lower rep), min_stock rep))
     (generate_business_report [\<lparr>Series.ds = 0, y = 1\<rparr>]
        [\<lparr>Series.ds = 0, y = Some 1, ForecastRow.yhat = None, yhat_lower = None, yhat_upper = None\<rparr>,
         \<lparr>Series.ds = 1, y = None, ForecastRow.yhat = Some (2 / 10), yhat_lower = Some (14 / 100),
          yhat_upper = Some (26 / 100)\<rparr>])
   = Inr (14 / 100, 0, 1)"
  by (simp add: generate_business_report_def forecast_period_after_def col_mean_def col_sum_def
      observed_def py_round_def Let_def)

theorem inventory_heuristics_witness:
  "\<exists>actual forecast rep.
     actual = [\<lparr>Series.ds = 0, y = 1\<rparr>] \<and>
     forecast =
       [\<lparr>Series.ds = 0, y = Some 1, ForecastRow.yhat = None, yhat_lower = None, yhat_upper = None\<rparr>,
        \<lparr>Series.ds = 1, y = None, ForecastRow.yhat = Some 3, yhat_lower = Some (21 / 10),
         yhat_upper = Some (39 / 10)\<rparr>,
        \<lparr>Series.ds = 2, y = None, ForecastRow.yhat = Some 2, yhat_lower = Some (14 / 10),
         yhat_upper = Some (26 / 10)\<rparr>] \<and>
     generate_business_report actual forecast = Inr rep \<and>
     avg_lower rep = 175 / 100 \<and>
     min_stock rep = max 1 (py_round (avg_lower rep)) \<and>
     weekly_stock rep =
       (py_round (avg_daily rep * 7 * (8 / 10)), py_round (avg_daily rep * 7 * (12 / 10))) \<and>
     buffer_stock rep = py_round (avg_upper rep * 2)"
proof -
  define actual :: "real Series list" where "actual = [\<lparr>Series.ds = 0, y = 1\<rparr>]"
  define forecast :: "ForecastRow list" where "forecast =
       [\<lparr>Series.ds = 0, y = Some 1, ForecastRow.yhat = None, yhat_lower = None, yhat_upper = None\<rparr>,
        \<lparr>Series.ds = 1, y = None, ForecastRow.yhat = Some 3, yhat_lower = Some (21 / 10),
         yhat_upper = Some (39 / 10)\<rparr>,
        \<lparr>Series.ds = 2, y = None, ForecastRow.yhat = Some 2, yhat_lower = Some (14 / 10),
         yhat_upper = Some (26 / 10)\<rparr>]"
  have "\<exists>rep. generate_business_report actual forecast = Inr rep"
    by (simp add: generate_business_report_def forecast_period_after_def col_mean_def
        observed_def Let_def actual_def forecast_def)
  then obtain rep where a: "generate_business_report actual forecast = Inr rep" by blast
  note I = inventory_heuristics[OF a]
  have "col_mean (map ForecastRow.yhat_lower
            (forecast_period_after (col_max (map Series.ds actual)) forecast)) = Some (175 / 100)"
    by (simp add: forecast_period_after_def col_mean_def observed_def actual_def forecast_def)
  with I have "avg_lower rep = 175 / 100" by simp
  with I a actual_def forecast_def show ?thesis by blast
qed

end
